theory Spec2Isabelle
  imports Complex_Main "HOL-Library.Word"
begin

section \<open>Go values shared by the packages\<close>

text \<open>
  Go strings are byte sequences: \<open>string\<close> (a \<open>char list\<close>) with \<open>length\<close> for
  \<open>len\<close>. An \<open>error\<close> result is the list of leaf errors it holds: \<open>[]\<close> is the nil
  error, a \<open>fmt.Errorf\<close> value is a singleton, a \<open>*multierror.Error\<close> is the list of
  its \<open>Errors\<close>. \<open>multierror.Append(errs, err)\<close> flattens an \<open>err\<close> that is itself a
  multierror one level, and every validator below only ever appends leaves or flat
  multierrors, so \<open>Append\<close> is list concatenation. Pointers that the protobuf decoder
  never leaves nil (the message a validator is called on, the elements of a repeated
  field, the wrapper of a oneof) are modelled as plain values; optional sub-messages
  (\<open>Match\<close>, \<open>HttpFault\<close>, ...) are \<open>option\<close>s.
\<close>

datatype error =
    InvalidEmptyHostname
      \<comment> \<open>"Invalid empty hostname"\<close>
  | InvalidHostnamePart string
      \<comment> \<open>"Invalid hostname part: %q"\<close>
  | NoDeclaredPort
      \<comment> \<open>"Service must have at least one declared port"\<close>
  | EmptyPortName
      \<comment> \<open>"Empty port names are not allowed for services with multiple ports"\<close>
  | InvalidName string
      \<comment> \<open>"Invalid name: %q"\<close>
  | InvalidServicePortValue int string
      \<comment> \<open>"Invalid service port value %d for %q"\<close>
  | InvalidTagKey string
      \<comment> \<open>"Invalid tag key: %q"\<close>
  | InvalidTagValue string
      \<comment> \<open>"Invalid tag value: %q"\<close>
  | DomainNameTooLong string
      \<comment> \<open>"domain name %q too long (max 255)"\<close>
  | EmptyDomainName
      \<comment> \<open>"empty domain name not allowed"\<close>
  | DomainNameInvalid string string
      \<comment> \<open>"domain name %q invalid (label %q invalid)"\<close>
  | UDPNotSupported
      \<comment> \<open>"Istio does not support UDP protocol yet"\<close>
  | PercentOutOfRange string
      \<comment> \<open>"%v must be in range 0..100", with the label\<close>
  | TimeoutSecondsInvalid
      \<comment> \<open>"timeout_seconds must be in range [0..]"\<close>
  | AttemptsInvalid
      \<comment> \<open>"attempts must be in range [0..]"\<close>
  | TerminateNotSupported
      \<comment> \<open>"Istio does not support the terminate fault yet"\<close>
  | NotValidCIDRNotation string
      \<comment> \<open>"%q is not valid CIDR notation"\<close>
  | NotValidCIDRBlock string
      \<comment> \<open>"/%v is not a valid CIDR block"\<close>
  | NotValidIPAddress string
      \<comment> \<open>"%q is not a valid IP address"\<close>
  | DelayFixedSecondsInvalid
      \<comment> \<open>"delay fixed_seconds invalid"\<close>
  | DelayExponentialSecondsInvalid
      \<comment> \<open>"delay exponential_seconds invalid"\<close>
  | ExponentialSecondsNotSupported
      \<comment> \<open>"Istio does not support exponential_seconds yet"\<close>
  | InvalidAbortHTTPStatus int
      \<comment> \<open>"invalid abort http status %v"\<close>
  | GRPCFaultNotSupported
      \<comment> \<open>"Istio does not support gRPC fault injection yet"\<close>
  | DownstreamLimitInvalid
      \<comment> \<open>"downstream_limit_bps invalid"\<close>
  | UpstreamLimitInvalid
      \<comment> \<open>"upstream_limit_bps invalid"\<close>
  | ThrottleAfterSecondsInvalid
      \<comment> \<open>"throttle_after_seconds invalid"\<close>
  | ThrottleAfterBytesInvalid
      \<comment> \<open>"throttle_after_bytes invalid"\<close>
  | RouteWeightsTotal int
      \<comment> \<open>"Route weights total %v (must total 100)", with the sum\<close>
  | CannotCastToRoutingRule
      \<comment> \<open>"cannot cast to routing rule"\<close>
  | NoDestinationService
      \<comment> \<open>"route rule must have a destination service"\<close>
  | L4FaultsNotImplemented
      \<comment> \<open>"L4 faults are not implemented"\<close>

definition Append :: "error list \<Rightarrow> error list \<Rightarrow> error list" where
  "Append errs err = errs @ err"

text \<open>
  \<open>float32\<close> and \<open>float64\<close> fields are only ever compared with the constants 0 and
  100. A value is a rational (every finite float is one), an infinity or a NaN; the
  comparisons are IEEE 754's, under which every ordered comparison with a NaN is false
  and \<open>NaN != 0\<close> is true.
\<close>

datatype gofloat = Finite rat | PosInf | NegInf | NaN

fun float_less :: "gofloat \<Rightarrow> rat \<Rightarrow> bool" where
  "float_less (Finite x) c = (x < c)"
| "float_less NegInf c = True"
| "float_less PosInf c = False"
| "float_less NaN c = False"

fun float_greater :: "gofloat \<Rightarrow> rat \<Rightarrow> bool" where
  "float_greater (Finite x) c = (c < x)"
| "float_greater PosInf c = True"
| "float_greater NegInf c = False"
| "float_greater NaN c = False"

fun float_neq :: "gofloat \<Rightarrow> rat \<Rightarrow> bool" where
  "float_neq (Finite x) c = (x \<noteq> c)"
| "float_neq PosInf c = True"
| "float_neq NegInf c = True"
| "float_neq NaN c = True"

subsection \<open>strings.Split, strconv.Atoi, fmt's decimal\<close>

text \<open>\<open>strings.Split(s, sep)\<close> for a one-byte separator: \<open>Split("", ".")\<close> is \<open>[""]\<close>.\<close>

fun Split :: "string \<Rightarrow> char \<Rightarrow> string list" where
  "Split [] sep = [[]]"
| "Split (c # cs) sep =
     (if c = sep then [] # Split cs sep
      else (case Split cs sep of
              [] \<Rightarrow> [[c]]
            | p # ps \<Rightarrow> (c # p) # ps))"

definition in_range :: "char \<Rightarrow> char \<Rightarrow> char \<Rightarrow> bool" where
  "in_range lo hi c = ((of_char lo :: nat) \<le> of_char c \<and> (of_char c :: nat) \<le> of_char hi)"

definition is_digit :: "char \<Rightarrow> bool" where
  "is_digit c = in_range (CHR ''0'') (CHR ''9'') c"

definition digit_val :: "char \<Rightarrow> int" where
  "digit_val c = of_char c - of_char (CHR ''0'')"

definition decimal_val :: "string \<Rightarrow> int" where
  "decimal_val ds = foldl (\<lambda>n c. 10 * n + digit_val c) 0 ds"

text \<open>
  \<open>strconv.Atoi\<close>: an optional sign, then at least one decimal digit and nothing else;
  a value outside the 64-bit \<open>int\<close> is a range error. \<open>None\<close> is \<open>err != nil\<close>.
\<close>

definition Atoi :: "string \<Rightarrow> int option" where
  "Atoi s =
     (let (neg, ds) =
            (case s of
               [] \<Rightarrow> (False, [])
             | c # cs \<Rightarrow>
                 if c = CHR ''-'' then (True, cs)
                 else if c = CHR ''+'' then (False, cs)
                 else (False, s))
      in if ds = [] \<or> \<not> list_all is_digit ds then None
         else (let n = decimal_val ds;
                   v = (if neg then - n else n)
               in if v < - (2 ^ 63) \<or> 2 ^ 63 - 1 < v then None else Some v))"

section \<open>Package model: validation (src/unnamed/part_001)\<close>

text \<open>
  The repository's files hold two snapshots of \<open>model/validation.go\<close>. The model follows
  \<open>src/unnamed/part_001\<close>, the snapshot that defines \<open>validateWeights\<close>. The snapshot
  under \<open>src/model/validation.go\<close> is an earlier one: there \<open>ValidateRouteRule\<close> has no
  weight check, the gRPC case of \<open>validateAbort\<close> is empty, and the percent validators
  use two messages. \<open>Service.Validate\<close> is the same in both.
\<close>

subsection \<open>Regular expressions\<close>

text \<open>
  \<open>dns1123LabelRex = "^[a-z0-9]([-a-z0-9]*[a-z0-9])?$"\<close>: a first byte of
  \<open>[a-z0-9]\<close>, then either nothing or bytes of \<open>[-a-z0-9]\<close> ending in one of
  \<open>[a-z0-9]\<close>. Go's \<open>$\<close> matches at the end of the text only.
  \<open>tagRegexp = "^[-A-Za-z0-9_./]*$"\<close>.
\<close>

definition lower_alnum :: "char \<Rightarrow> bool" where
  "lower_alnum c = (in_range (CHR ''a'') (CHR ''z'') c \<or> in_range (CHR ''0'') (CHR ''9'') c)"

definition dns1123LabelRex :: "string \<Rightarrow> bool" where
  "dns1123LabelRex s =
     (case s of
        [] \<Rightarrow> False
      | c # cs \<Rightarrow>
          lower_alnum c \<and>
          (cs = [] \<or>
           (list_all (\<lambda>x. x = CHR ''-'' \<or> lower_alnum x) (butlast cs) \<and> lower_alnum (last cs))))"

definition tagRegexp :: "string \<Rightarrow> bool" where
  "tagRegexp s =
     list_all (\<lambda>c. c = CHR ''-'' \<or> in_range (CHR ''A'') (CHR ''Z'') c \<or>
                   in_range (CHR ''a'') (CHR ''z'') c \<or> in_range (CHR ''0'') (CHR ''9'') c \<or>
                   c = CHR ''_'' \<or> c = CHR ''.'' \<or> c = CHR ''/'') s"

definition dns1123LabelMaxLength :: nat where
  "dns1123LabelMaxLength = 63"

definition IsDNS1123Label :: "string \<Rightarrow> bool" where
  "IsDNS1123Label v = (length v \<le> dns1123LabelMaxLength \<and> dns1123LabelRex v)"

subsection \<open>Service.Validate\<close>

record Port =
  Name :: string
  Port :: int
  Protocol :: string

record Service =
  Hostname :: string
  Address :: string
  Ports :: "Port list"

definition Service_Validate_port :: "nat \<Rightarrow> error list \<Rightarrow> Port \<Rightarrow> error list" where
  "Service_Validate_port n errs port =
     (let errs =
            (if Name port = []
             then (if n > 1 then Append errs [EmptyPortName] else errs)
             else if \<not> IsDNS1123Label (Name port) then Append errs [InvalidName (Name port)]
             else errs)
      in if Port port < 0
         then Append errs [InvalidServicePortValue (Port port) (Name port)]
         else errs)"

definition Service_Validate :: "Service \<Rightarrow> error list" where
  "Service_Validate s =
     (let errs = (if length (Hostname s) = 0 then Append [] [InvalidEmptyHostname] else []);
          parts = Split (Hostname s) (CHR ''.'');
          errs = foldl (\<lambda>errs part.
                          if \<not> IsDNS1123Label part then Append errs [InvalidHostnamePart part]
                          else errs) errs parts;
          errs = (if length (Ports s) = 0 then Append errs [NoDeclaredPort] else errs)
      in foldl (Service_Validate_port (length (Ports s))) errs (Ports s))"

subsection \<open>Tags and domain names\<close>

text \<open>
  \<open>Tags\<close> is a Go map; the list gives its entries in the order one \<open>range\<close> loop
  visits them.
\<close>

type_synonym Tags = "(string \<times> string) list"

definition Tags_Validate :: "Tags \<Rightarrow> error list" where
  "Tags_Validate t =
     foldl (\<lambda>errs (k, v).
              (let errs = (if \<not> tagRegexp k then Append errs [InvalidTagKey k] else errs)
               in if \<not> tagRegexp v then Append errs [InvalidTagValue v] else errs))
       [] t"

definition validateFQDN :: "string \<Rightarrow> error list" where
  "validateFQDN fqdn =
     (if length fqdn > 255 then [DomainNameTooLong fqdn]
      else if length fqdn = 0 then [EmptyDomainName]
      else (case find (\<lambda>label. \<not> IsDNS1123Label label) (Split fqdn (CHR ''.'')) of
              Some label \<Rightarrow> [DomainNameInvalid fqdn label]
            | None \<Rightarrow> []))"

subsection \<open>Subnets\<close>

definition validateCIDRBlock :: "string \<Rightarrow> error list" where
  "validateCIDRBlock cidr =
     (case Atoi cidr of
        None \<Rightarrow> [NotValidCIDRBlock cidr]
      | Some bits \<Rightarrow> if bits \<le> 0 \<or> bits > 32 then [NotValidCIDRBlock cidr] else [])"

definition validateIPv4Address :: "string \<Rightarrow> error list" where
  "validateIPv4Address addr =
     (let octets = Split addr (CHR ''.'')
      in if length octets \<noteq> 4 then [NotValidIPAddress addr]
         else (case find (\<lambda>octet. case Atoi octet of
                                      None \<Rightarrow> True
                                    | Some n \<Rightarrow> n < 0 \<or> n > 255) octets of
                 Some octet \<Rightarrow> [NotValidIPAddress addr]
               | None \<Rightarrow> []))"

definition validateIPv4Subnet :: "string \<Rightarrow> error list" where
  "validateIPv4Subnet subnet =
     (let parts = Split subnet (CHR ''/'')
      in if length parts > 2 then [NotValidCIDRNotation subnet]
         else (let errs = (if length parts = 2
                           then Append [] (validateCIDRBlock (parts ! 1)) else [])
               in Append errs (validateIPv4Address (hd parts))))"

definition validateSubnet :: "string \<Rightarrow> error list" where
  "validateSubnet subnet = validateIPv4Subnet subnet"

record L4MatchAttributes =
  SourceSubnet :: "string list"
  DestinationSubnet :: "string list"

definition ValidateL4MatchAttributes :: "L4MatchAttributes \<Rightarrow> error list" where
  "ValidateL4MatchAttributes ma =
     (let errs = foldl (\<lambda>errs subnet. Append errs (validateSubnet subnet)) [] (SourceSubnet ma)
      in foldl (\<lambda>errs subnet. Append errs (validateSubnet subnet)) errs (DestinationSubnet ma))"

text \<open>\<open>MatchCondition.HttpHeaders\<close> is never read by the validators and is left out.\<close>

record MatchCondition =
  Source :: string
  SourceTags :: Tags
  Tcp :: "L4MatchAttributes option"
  Udp :: "L4MatchAttributes option"

definition ValidateMatchCondition :: "MatchCondition \<Rightarrow> error list" where
  "ValidateMatchCondition mc =
     (let errs = (if Source mc \<noteq> [] then Append [] (validateFQDN (Source mc)) else []);
          errs = Append errs (Tags_Validate (SourceTags mc));
          errs = (case Tcp mc of
                    Some tcp \<Rightarrow> Append errs (ValidateL4MatchAttributes tcp)
                  | None \<Rightarrow> errs)
      in case Udp mc of
           Some udp \<Rightarrow> Append (Append errs (ValidateL4MatchAttributes udp)) [UDPNotSupported]
         | None \<Rightarrow> errs)"

subsection \<open>Percentages, weights, timeouts and retries\<close>

definition validatePercent :: "error list \<Rightarrow> 32 word \<Rightarrow> string \<Rightarrow> error list" where
  "validatePercent err val label =
     (if sint val < 0 \<or> sint val > 100 then Append err [PercentOutOfRange label] else err)"

definition validateFloatPercent :: "error list \<Rightarrow> gofloat \<Rightarrow> string \<Rightarrow> error list" where
  "validateFloatPercent err val label =
     (if float_less val 0 \<or> float_greater val 100
      then Append err [PercentOutOfRange label] else err)"

record DestinationWeight =
  Destination :: string
  Tags :: Tags
  Weight :: "32 word"

definition ValidateDestinationWeight :: "DestinationWeight \<Rightarrow> error list" where
  "ValidateDestinationWeight dw =
     (let errs = (if Destination dw \<noteq> [] then Append [] (validateFQDN (Destination dw)) else []);
          errs = Append errs (Tags_Validate (Tags dw))
      in validatePercent errs (Weight dw) ''weight'')"

text \<open>
  A oneof is a datatype with one constructor per case and one for the unset field; the
  generated getter returns the zero value (a nil pointer, 0) for every other case.
\<close>

record SimpleTimeoutPolicy =
  TimeoutSeconds :: gofloat

datatype HTTPTimeout = TimeoutPolicy_unset | SimpleTimeout SimpleTimeoutPolicy | CustomTimeout

fun GetSimpleTimeout :: "HTTPTimeout \<Rightarrow> SimpleTimeoutPolicy option" where
  "GetSimpleTimeout (SimpleTimeout p) = Some p"
| "GetSimpleTimeout t = None"

definition ValidateHTTPTimeout :: "HTTPTimeout \<Rightarrow> error list" where
  "ValidateHTTPTimeout timeout =
     (case GetSimpleTimeout timeout of
        Some simple \<Rightarrow> if float_less (TimeoutSeconds simple) 0 then [TimeoutSecondsInvalid] else []
      | None \<Rightarrow> [])"

record SimpleRetryPolicy =
  Attempts :: "32 word"

datatype HTTPRetry = RetryPolicy_unset | SimpleRetry SimpleRetryPolicy | CustomRetry

fun GetSimpleRetry :: "HTTPRetry \<Rightarrow> SimpleRetryPolicy option" where
  "GetSimpleRetry (SimpleRetry p) = Some p"
| "GetSimpleRetry r = None"

definition ValidateHTTPRetries :: "HTTPRetry \<Rightarrow> error list" where
  "ValidateHTTPRetries retry =
     (case GetSimpleRetry retry of
        Some simple \<Rightarrow> if sint (Attempts simple) < 0 then Append [] [AttemptsInvalid] else []
      | None \<Rightarrow> [])"

subsection \<open>Fault injection\<close>

datatype HttpDelayType =
    HttpDelayType_unset
  | FixedDelaySeconds gofloat
  | ExponentialDelaySeconds gofloat

record HTTPFaultInjection_Delay =
  Delay_Percent :: gofloat
  HttpDelayType :: HttpDelayType

fun GetFixedDelaySeconds :: "HTTPFaultInjection_Delay \<Rightarrow> gofloat" where
  "GetFixedDelaySeconds delay =
     (case HttpDelayType delay of FixedDelaySeconds x \<Rightarrow> x | _ \<Rightarrow> Finite 0)"

fun GetExponentialDelaySeconds :: "HTTPFaultInjection_Delay \<Rightarrow> gofloat" where
  "GetExponentialDelaySeconds delay =
     (case HttpDelayType delay of ExponentialDelaySeconds x \<Rightarrow> x | _ \<Rightarrow> Finite 0)"

definition validateDelay :: "HTTPFaultInjection_Delay \<Rightarrow> error list" where
  "validateDelay delay =
     (let errs = validateFloatPercent [] (Delay_Percent delay) ''delay'';
          errs = (if float_less (GetFixedDelaySeconds delay) 0
                  then Append errs [DelayFixedSecondsInvalid] else errs)
      in if float_neq (GetExponentialDelaySeconds delay) 0
         then (let errs = (if float_less (GetExponentialDelaySeconds delay) 0
                           then Append errs [DelayExponentialSecondsInvalid] else errs)
               in Append errs [ExponentialSecondsNotSupported])
         else errs)"

datatype ErrorType =
    ErrorType_unset
  | GrpcStatus string
  | Http2Error string
  | HttpStatus "32 word"

record HTTPFaultInjection_Abort =
  Abort_Percent :: gofloat
  ErrorType :: ErrorType

definition validateAbortHTTPStatus :: "32 word \<Rightarrow> error list" where
  "validateAbortHTTPStatus httpStatus =
     (if sint httpStatus < 0 \<or> sint httpStatus > 600
      then Append [] [InvalidAbortHTTPStatus (sint httpStatus)] else [])"

definition validateAbort :: "HTTPFaultInjection_Abort \<Rightarrow> error list" where
  "validateAbort abort =
     (let errs = validateFloatPercent [] (Abort_Percent abort) ''abort''
      in case ErrorType abort of
           GrpcStatus g \<Rightarrow> Append errs [GRPCFaultNotSupported]
         | Http2Error h \<Rightarrow> errs
         | HttpStatus st \<Rightarrow> Append errs (validateAbortHTTPStatus st)
         | ErrorType_unset \<Rightarrow> errs)"

record HTTPFaultInjection =
  Delay :: "HTTPFaultInjection_Delay option"
  Abort :: "HTTPFaultInjection_Abort option"

definition ValidateHTTPFault :: "HTTPFaultInjection \<Rightarrow> error list" where
  "ValidateHTTPFault fault =
     (let errs = (case Delay fault of
                    Some delay \<Rightarrow> Append [] (validateDelay delay)
                  | None \<Rightarrow> [])
      in case Abort fault of
           Some abort \<Rightarrow> Append errs (validateAbort abort)
         | None \<Rightarrow> errs)"

record L4FaultInjection_Terminate =
  Terminate_Percent :: gofloat

definition validateTerminate :: "L4FaultInjection_Terminate \<Rightarrow> error list" where
  "validateTerminate terminate = validateFloatPercent [] (Terminate_Percent terminate) ''terminate''"

datatype ThrottleAfter =
    ThrottleAfter_unset
  | ThrottleAfterSeconds gofloat
  | ThrottleAfterBytes gofloat

record L4FaultInjection_Throttle =
  Throttle_Percent :: gofloat
  DownstreamLimitBps :: "64 word"
  UpstreamLimitBps :: "64 word"
  ThrottleAfter :: ThrottleAfter

fun GetThrottleAfterSeconds :: "L4FaultInjection_Throttle \<Rightarrow> gofloat" where
  "GetThrottleAfterSeconds throttle =
     (case ThrottleAfter throttle of ThrottleAfterSeconds x \<Rightarrow> x | _ \<Rightarrow> Finite 0)"

fun GetThrottleAfterBytes :: "L4FaultInjection_Throttle \<Rightarrow> gofloat" where
  "GetThrottleAfterBytes throttle =
     (case ThrottleAfter throttle of ThrottleAfterBytes x \<Rightarrow> x | _ \<Rightarrow> Finite 0)"

definition validateThrottle :: "L4FaultInjection_Throttle \<Rightarrow> error list" where
  "validateThrottle throttle =
     (let errs = validateFloatPercent [] (Throttle_Percent throttle) ''throttle'';
          errs = (if sint (DownstreamLimitBps throttle) < 0
                  then Append errs [DownstreamLimitInvalid] else errs);
          errs = (if sint (UpstreamLimitBps throttle) < 0
                  then Append errs [UpstreamLimitInvalid] else errs);
          errs = (if float_less (GetThrottleAfterSeconds throttle) 0
                  then Append errs [ThrottleAfterSecondsInvalid] else errs)
      in if float_less (GetThrottleAfterBytes throttle) 0
         then Append errs [ThrottleAfterBytesInvalid] else errs)"

record L4FaultInjection =
  Throttle :: "L4FaultInjection_Throttle option"
  Terminate :: "L4FaultInjection_Terminate option"

definition ValidateL4Fault :: "L4FaultInjection \<Rightarrow> error list" where
  "ValidateL4Fault fault =
     (let errs = (case Terminate fault of
                    Some terminate \<Rightarrow>
                      Append (Append [] (validateTerminate terminate)) [TerminateNotSupported]
                  | None \<Rightarrow> [])
      in case Throttle fault of
           Some throttle \<Rightarrow> Append errs (validateThrottle throttle)
         | None \<Rightarrow> errs)"

subsection \<open>Route rules\<close>


text \<open>
  \<open>Route\<close> is a slice: \<open>None\<close> is the nil slice, which \<open>value.Route != nil\<close> tells
  from an empty one. \<open>Precedence\<close> is never validated.
\<close>

record RouteRule =
  RouteRule_Destination :: string
  Precedence :: "32 word"
  Match :: "MatchCondition option"
  Route :: "DestinationWeight list option"
  HttpReqTimeout :: "HTTPTimeout option"
  HttpReqRetries :: "HTTPRetry option"
  HttpFault :: "HTTPFaultInjection option"
  L4Fault :: "L4FaultInjection option"

text \<open>A \<open>proto.Message\<close>: a \<open>*proxyconfig.RouteRule\<close> or a message of another type.\<close>

datatype Message = RouteRuleMessage RouteRule | OtherMessage


subsection \<open>Vocabulary of the validation properties\<close>

text \<open>The error \<open>validateWeights\<close> reports, whatever sum it mentions.\<close>

fun weight_sum_error :: "error \<Rightarrow> bool" where
  "weight_sum_error (RouteWeightsTotal n) = True"
| "weight_sum_error e = False"


definition no_weight_error :: "error list \<Rightarrow> bool" where
  "no_weight_error errs = (\<not> list_ex weight_sum_error errs)"

text \<open>What \<open>Service.Validate\<close> asks of one port of a service with \<open>n\<close> ports.\<close>

definition port_ok :: "nat \<Rightarrow> Port \<Rightarrow> bool" where
  "port_ok n p =
     ((Name p = [] \<longrightarrow> n \<le> 1) \<and> (Name p \<noteq> [] \<longrightarrow> IsDNS1123Label (Name p)) \<and> 0 \<le> Port p)"

text \<open>Concrete inputs.\<close>

definition http_port :: "int \<Rightarrow> Port" where
  "http_port n = \<lparr>Name = ''http'', Port = n, Protocol = ''HTTP''\<rparr>"

definition unnamed_port :: "int \<Rightarrow> Port" where
  "unnamed_port n = \<lparr>Name = [], Port = n, Protocol = ''HTTP''\<rparr>"

definition service_with :: "Port list \<Rightarrow> Service" where
  "service_with ps = \<lparr>Hostname = ''hello.default'', Address = ''10.0.0.1'', Ports = ps\<rparr>"

definition destination :: "32 word \<Rightarrow> DestinationWeight" where
  "destination w = \<lparr>Destination = ''world.default'', Tags = [(''version'', ''v1'')], Weight = w\<rparr>"


definition upper_port :: "int \<Rightarrow> Port" where
  "upper_port n = \<lparr>Name = ''HTTP'', Port = n, Protocol = ''HTTP''\<rparr>"


section \<open>Package envoy: the discovery cache (src/proxy/envoy/discovery.go)\<close>

text \<open>
  A cache maps a key to an entry; the Go map holds pointers, each created by
  \<open>updateCachedDiscoveryResponse\<close> and stored under one key only, so a map to entry
  values loses no aliasing. \<open>data\<close> is a byte slice, \<open>None\<close> the nil slice; the
  counters are \<open>uint64\<close> and wrap. Each method takes the cache and returns it
  updated; a method runs under the cache's lock, so it is one step here.
\<close>

record discoveryCacheStatEntry =
  Hit :: "64 word"
  Miss :: "64 word"

record discoveryCacheEntry =
  data :: "string option"
  hit :: "64 word"
  miss :: "64 word"

record discoveryCache =
  disabled :: bool
  cache :: "string \<rightharpoonup> discoveryCacheEntry"

definition newDiscoveryCache :: "bool \<Rightarrow> discoveryCache" where
  "newDiscoveryCache enabled = \<lparr>disabled = \<not> enabled, cache = Map.empty\<rparr>"

text \<open>The result is the pair \<open>([]byte, bool)\<close> of the source, and the cache.\<close>

definition cachedDiscoveryResponse ::
    "discoveryCache \<Rightarrow> string \<Rightarrow> (string option \<times> bool) \<times> discoveryCache" where
  "cachedDiscoveryResponse c key =
     (if disabled c then ((None, False), c)
      else (case cache c key of
              None \<Rightarrow> ((None, False), c)
            | Some entry \<Rightarrow>
                (case data entry of
                   None \<Rightarrow> ((None, False), c)
                 | Some d \<Rightarrow>
                     ((Some d, True),
                      c\<lparr>cache := (cache c)(key \<mapsto> entry\<lparr>hit := hit entry + 1\<rparr>)\<rparr>))))"

text \<open>The warning logged when cached data is overridden is not part of the state.\<close>

definition updateCachedDiscoveryResponse ::
    "discoveryCache \<Rightarrow> string \<Rightarrow> string option \<Rightarrow> discoveryCache" where
  "updateCachedDiscoveryResponse c key d =
     (if disabled c then c
      else (let entry = (case cache c key of
                           None \<Rightarrow> \<lparr>data = None, hit = 0, miss = 0\<rparr>
                         | Some entry \<Rightarrow> entry)
            in c\<lparr>cache := (cache c)(key \<mapsto> entry\<lparr>data := d, miss := miss entry + 1\<rparr>)\<rparr>))"

definition clear :: "discoveryCache \<Rightarrow> discoveryCache" where
  "clear c = c\<lparr>cache := (\<lambda>k. map_option (\<lambda>v. v\<lparr>data := None\<rparr>) (cache c k))\<rparr>"

definition resetStats :: "discoveryCache \<Rightarrow> discoveryCache" where
  "resetStats c = c\<lparr>cache := (\<lambda>k. map_option (\<lambda>v. v\<lparr>hit := 0, miss := 0\<rparr>) (cache c k))\<rparr>"

definition stats :: "discoveryCache \<Rightarrow> (string \<rightharpoonup> discoveryCacheStatEntry)" where
  "stats c = (\<lambda>k. map_option (\<lambda>v. \<lparr>Hit = hit v, Miss = miss v\<rparr>) (cache c k))"

subsection \<open>Decimal numbers and JSON text\<close>

text \<open>\<open>fmt.Sprint\<close>, \<open>%d\<close> and \<open>%v\<close> of an integer: its decimal digits, with a sign.\<close>

fun digits :: "nat \<Rightarrow> string" where
  "digits n = (if n < 10 then [char_of (48 + n)] else digits (n div 10) @ [char_of (48 + n mod 10)])"

definition itoa :: "int \<Rightarrow> string" where
  "itoa n = (if n < 0 then CHR ''-'' # digits (nat (- n)) else digits (nat n))"

text \<open>
  The JSON values the discovery service marshals itself, and the text
  \<open>json.MarshalIndent(v, " ", " ")\<close> writes for one: after each \<open>{\<close>, \<open>[\<close> and \<open>,\<close>
  a new line that starts with the prefix (one space) and one indent (one space) per
  nesting level, a space after each colon, and \<open>[]\<close> or \<open>{}\<close> for an empty array or
  object. The encoding of a string value as a JSON literal (quotes and escapes) is the
  library's; it is the parameter \<open>q\<close>. Field names are plain ASCII and are written
  between double quotes (\<open>CHR 0x22\<close>).
\<close>

datatype json =
    JNull
  | JNumber int
  | JString string
  | JArray "json list"
  | JObject "(string \<times> json) list"

definition newline :: "nat \<Rightarrow> string" where
  "newline depth = CHR 0x0A # CHR '' '' # replicate depth (CHR '' '')"

fun separate :: "string \<Rightarrow> string list \<Rightarrow> string" where
  "separate sep [] = []"
| "separate sep [x] = x"
| "separate sep (x # y # ys) = x @ sep @ separate sep (y # ys)"

fun indent_json :: "(string \<Rightarrow> string) \<Rightarrow> nat \<Rightarrow> json \<Rightarrow> string" where
  "indent_json q depth JNull = ''null''"
| "indent_json q depth (JNumber n) = itoa n"
| "indent_json q depth (JString s) = q s"
| "indent_json q depth (JArray xs) =
     (if xs = [] then ''[]''
      else ''['' @ newline (Suc depth) @
           separate ('','' @ newline (Suc depth)) (map (indent_json q (Suc depth)) xs) @
           newline depth @ '']'')"
| "indent_json q depth (JObject kvs) =
     (if kvs = [] then ''{}''
      else ''{'' @ newline (Suc depth) @
           separate ('','' @ newline (Suc depth))
             (map (\<lambda>kv. CHR 0x22 # fst kv @ [CHR 0x22] @ '': '' @
                          indent_json q (Suc depth) (snd kv)) kvs) @
           newline depth @ ''}'')"

section \<open>Package envoy: the discovery service (src/proxy/envoy/discovery.go)\<close>

subsection \<open>Collaborators declared outside the repository's files\<close>

text \<open>
  The registry interface \<open>model.ServiceDiscovery\<close>, the mesh configuration, the route
  and cluster generation (\<open>buildOutboundHTTPRoutes\<close>, \<open>clusters\<close>, \<open>normalize\<close>,
  \<open>insertDestinationPolicy\<close>), \<open>model.ParseServiceKey\<close> and the marshalling of the
  generated configuration are declared in files that are not among the sources. They
  are parameters: the interface is a record of its methods, the functions are the
  fields of \<open>externals\<close>, and the types of the registry (\<open>'r\<close>), of a cluster (\<open>'c\<close>)
  and of a route configuration (\<open>'rc\<close>) are type variables. Only the fields the
  handlers read are kept. \<open>Quote\<close> is \<open>%q\<close> of \<open>fmt\<close>, \<open>JSONString\<close> the JSON
  literal of a string, \<open>RouteRule_kind\<close> and \<open>DestinationPolicy_kind\<close> the kind names
  \<open>model.RouteRule\<close> and \<open>model.DestinationPolicy\<close>.
\<close>

record NetworkEndpoint =
  Endpoint_Address :: string
  Endpoint_Port :: int

record ServiceInstance =
  Endpoint :: NetworkEndpoint
  Instance_Tags :: Tags

record ServiceDiscovery =
  Services :: "Service list"
  Instances :: "string \<Rightarrow> string list \<Rightarrow> Tags \<Rightarrow> ServiceInstance list"
  HostInstances :: "string set \<Rightarrow> ServiceInstance list"

record Duration =
  Seconds :: "64 word"
  Nanos :: "32 word"

record ProxyMeshConfig =
  IstioServiceCluster :: string
  DrainDuration :: "Duration option"
  ParentShutdownDuration :: "Duration option"

text \<open>\<open>ProxyContext\<close> is declared in the watcher's file (src/unnamed/part_002).\<close>

record 'r ProxyContext =
  Discovery :: ServiceDiscovery
  Config :: 'r
  MeshConfig :: ProxyMeshConfig
  IPAddress :: string

record ('r, 'c, 'rc) externals =
  ParseServiceKey :: "string \<Rightarrow> string \<times> Port list \<times> Tags"
  GetNames :: "Port list \<Rightarrow> string list"
  buildOutboundHTTPRoutes ::
    "ServiceInstance list \<Rightarrow> Service list \<Rightarrow> 'r ProxyContext \<Rightarrow> (int \<rightharpoonup> 'rc)"
  clusters :: "(int \<rightharpoonup> 'rc) \<Rightarrow> 'c list"
  normalize :: "'c list \<Rightarrow> 'c list"
  insertDestinationPolicy :: "'r \<Rightarrow> 'c \<Rightarrow> 'c"
  MarshalIndent_ClusterManager :: "'c list \<Rightarrow> string + string"
  MarshalIndent_HTTPRouteConfig :: "'rc \<Rightarrow> string + string"
  Quote :: "string \<Rightarrow> string"
  JSONString :: "string \<Rightarrow> string"
  RouteRule_kind :: string
  DestinationPolicy_kind :: string

subsection \<open>Requests and responses\<close>

text \<open>
  A request is what the handlers read of it: \<open>request.Request.URL.String()\<close> and the
  path parameters (\<open>PathParameter\<close> of a missing name is the empty string). A response
  is what a handler writes to the fresh \<open>restful.Response\<close> it is given: the status
  and the body.
\<close>

record Request =
  URL :: string
  PathParameters :: "(string \<times> string) list"

definition PathParameter :: "Request \<Rightarrow> string \<Rightarrow> string" where
  "PathParameter request name =
     (case map_of (PathParameters request) name of Some v \<Rightarrow> v | None \<Rightarrow> [])"

record Response =
  StatusCode :: int
  Body :: string

definition ServiceKey :: string where "ServiceKey = ''service-key''"
definition ServiceCluster :: string where "ServiceCluster = ''service-cluster''"
definition ServiceNode :: string where "ServiceNode = ''service-node''"
definition RouteConfigName :: string where "RouteConfigName = ''route-config-name''"

definition StatusOK :: int where "StatusOK = 200"
definition StatusNotFound :: int where "StatusNotFound = 404"
definition StatusInternalServerError :: int where "StatusInternalServerError = 500"

definition errorResponse :: "int \<Rightarrow> string \<Rightarrow> Response" where
  "errorResponse status msg = \<lparr>StatusCode = status, Body = msg\<rparr>"

definition writeResponse :: "string option \<Rightarrow> Response" where
  "writeResponse d = \<lparr>StatusCode = StatusOK, Body = (case d of None \<Rightarrow> [] | Some b \<Rightarrow> b)\<rparr>"

subsection \<open>The SDS payload\<close>

text \<open>
  \<open>Hosts\<close> is a slice of pointers made by \<open>&host{...}\<close>: \<open>None\<close> is the nil slice,
  which \<open>encoding/json\<close> writes as \<open>null\<close>; a non-nil slice is an array. \<open>Weight\<close>
  carries \<open>omitempty\<close>. Marshalling these types cannot fail.
\<close>

record host =
  host_Address :: string
  host_Port :: int
  host_Weight :: int

record hosts =
  Hosts :: "host list option"

definition host_json :: "host \<Rightarrow> json" where
  "host_json h =
     JObject ([(''ip_address'', JString (host_Address h)), (''port'', JNumber (host_Port h))] @
              (if host_Weight h = 0 then []
               else [(''load_balancing_weight'', JNumber (host_Weight h))]))"

definition hosts_json :: "hosts \<Rightarrow> json" where
  "hosts_json v =
     JObject [(''hosts'', (case Hosts v of
                             None \<Rightarrow> JNull
                           | Some hs \<Rightarrow> JArray (map host_json hs)))]"

definition MarshalIndent_hosts :: "(string \<Rightarrow> string) \<Rightarrow> hosts \<Rightarrow> string + string" where
  "MarshalIndent_hosts q v = Inr (indent_json q 0 (hosts_json v))"

subsection \<open>The service and its handlers\<close>

text \<open>
  The fields \<open>controller\<close> and \<open>server\<close> are not read by any handler and are left
  out. A handler takes the service and returns it with the response; handlers of
  concurrent requests interleave only at the cache's methods, each of which runs under
  the cache's lock.
\<close>

record 'r DiscoveryService =
  services :: ServiceDiscovery
  config :: 'r
  mesh :: ProxyMeshConfig
  sdsCache :: discoveryCache
  cdsCache :: discoveryCache
  rdsCache :: discoveryCache

definition clearCache :: "'r DiscoveryService \<Rightarrow> 'r DiscoveryService" where
  "clearCache ds =
     ds\<lparr>sdsCache := clear (sdsCache ds),
        cdsCache := clear (cdsCache ds),
        rdsCache := clear (rdsCache ds)\<rparr>"

definition ClearCacheStats :: "'r DiscoveryService \<Rightarrow> 'r DiscoveryService" where
  "ClearCacheStats ds =
     ds\<lparr>sdsCache := resetStats (sdsCache ds),
        cdsCache := resetStats (cdsCache ds),
        rdsCache := resetStats (rdsCache ds)\<rparr>"

text \<open>The entity \<open>GetCacheStats\<close> writes: later caches overwrite equal keys.\<close>

definition GetCacheStats :: "'r DiscoveryService \<Rightarrow> (string \<rightharpoonup> discoveryCacheStatEntry)" where
  "GetCacheStats ds = stats (sdsCache ds) ++ stats (cdsCache ds) ++ stats (rdsCache ds)"

definition ListEndpoints ::
    "('r, 'c, 'rc) externals \<Rightarrow> 'r DiscoveryService \<Rightarrow> Request \<Rightarrow> 'r DiscoveryService \<times> Response" where
  "ListEndpoints ext ds request =
     (let key = URL request;
          ((out, cached), sds) = cachedDiscoveryResponse (sdsCache ds) key;
          ds = ds\<lparr>sdsCache := sds\<rparr>
      in if \<not> cached
         then (let (hostname, ports, tags) = ParseServiceKey ext (PathParameter request ServiceKey);
                   hostArray =
                     foldl (\<lambda>hostArray ep.
                              hostArray @ [\<lparr>host_Address = Endpoint_Address (Endpoint ep),
                                            host_Port = Endpoint_Port (Endpoint ep),
                                            host_Weight = 0\<rparr>])
                       [] (Instances (services ds) hostname (GetNames ext ports) tags)
               in case MarshalIndent_hosts (JSONString ext) \<lparr>Hosts = Some hostArray\<rparr> of
                    Inl err \<Rightarrow> (ds, errorResponse StatusInternalServerError err)
                  | Inr out \<Rightarrow>
                      (ds\<lparr>sdsCache := updateCachedDiscoveryResponse (sdsCache ds) key (Some out)\<rparr>,
                       writeResponse (Some out)))
         else (ds, writeResponse out))"

definition ListClusters ::
    "('r, 'c, 'rc) externals \<Rightarrow> 'r DiscoveryService \<Rightarrow> Request \<Rightarrow> 'r DiscoveryService \<times> Response" where
  "ListClusters ext ds request =
     (let key = URL request;
          ((out, cached), cds) = cachedDiscoveryResponse (cdsCache ds) key;
          ds = ds\<lparr>cdsCache := cds\<rparr>
      in if \<not> cached
         then (let sc = PathParameter request ServiceCluster
               in if sc \<noteq> IstioServiceCluster (mesh ds)
                  then (ds, errorResponse StatusNotFound
                              (''Unexpected '' @ ServiceCluster @ '' '' @ Quote ext sc))
                  else (let ip = PathParameter request ServiceNode;
                            instances = HostInstances (services ds) {ip};
                            svcs = Services (services ds);
                            httpRouteConfigs =
                              buildOutboundHTTPRoutes ext instances svcs
                                \<lparr>Discovery = services ds, Config = config ds,
                                 MeshConfig = mesh ds, IPAddress = ip\<rparr>;
                            cls = normalize ext (clusters ext httpRouteConfigs);
                            cls = map (insertDestinationPolicy ext (config ds)) cls
                        in case MarshalIndent_ClusterManager ext cls of
                             Inl err \<Rightarrow> (ds, errorResponse StatusInternalServerError err)
                           | Inr out \<Rightarrow>
                               (ds\<lparr>cdsCache :=
                                     updateCachedDiscoveryResponse (cdsCache ds) key (Some out)\<rparr>,
                                writeResponse (Some out))))
         else (ds, writeResponse out))"

definition ListRoutes ::
    "('r, 'c, 'rc) externals \<Rightarrow> 'r DiscoveryService \<Rightarrow> Request \<Rightarrow> 'r DiscoveryService \<times> Response" where
  "ListRoutes ext ds request =
     (let key = URL request;
          ((out, cached), rds) = cachedDiscoveryResponse (rdsCache ds) key;
          ds = ds\<lparr>rdsCache := rds\<rparr>
      in if \<not> cached
         then (let sc = PathParameter request ServiceCluster
               in if sc \<noteq> IstioServiceCluster (mesh ds)
                  then (ds, errorResponse StatusNotFound
                              (''Unexpected '' @ ServiceCluster @ '' '' @ Quote ext sc))
                  else (let ip = PathParameter request ServiceNode;
                            routeConfigName = PathParameter request RouteConfigName
                        in case Atoi routeConfigName of
                             None \<Rightarrow>
                               (ds, errorResponse StatusNotFound
                                      (''Unexpected '' @ RouteConfigName @ '' '' @
                                       Quote ext routeConfigName))
                           | Some port \<Rightarrow>
                               (let instances = HostInstances (services ds) {ip};
                                    svcs = Services (services ds);
                                    httpRouteConfigs =
                                      buildOutboundHTTPRoutes ext instances svcs
                                        \<lparr>Discovery = services ds, Config = config ds,
                                         MeshConfig = mesh ds, IPAddress = ip\<rparr>
                                in case httpRouteConfigs port of
                                     None \<Rightarrow>
                                       (ds, errorResponse StatusNotFound
                                              (''Missing route config for port '' @ itoa port))
                                   | Some routeConfig \<Rightarrow>
                                       (case MarshalIndent_HTTPRouteConfig ext routeConfig of
                                          Inl err \<Rightarrow>
                                            (ds, errorResponse StatusInternalServerError err)
                                        | Inr out \<Rightarrow>
                                            (ds\<lparr>rdsCache :=
                                                  updateCachedDiscoveryResponse (rdsCache ds) key
                                                    (Some out)\<rparr>,
                                             writeResponse (Some out))))))
         else (ds, writeResponse out))"

subsection \<open>Construction and cache invalidation\<close>

text \<open>
  \<open>model.Controller\<close> is an interface: a record of its three registration methods
  over the controller's own state \<open>'k\<close>. A method returns the error (\<open>None\<close> is nil)
  and the controller. A handler is a closure over the service pointer \<open>out\<close>: a
  function from the service to the service. The HTTP container and its routes, which
  \<open>NewDiscoveryService\<close> also sets up, hold no state of the caches.
\<close>

datatype Event = EventAdd | EventUpdate | EventDelete

record Key =
  Key_Kind :: string
  Key_Name :: string
  Key_Namespace :: string

record ('k, 'ds) Controller =
  AppendServiceHandler :: "'k \<Rightarrow> (Service \<Rightarrow> Event \<Rightarrow> 'ds \<Rightarrow> 'ds) \<Rightarrow> string option \<times> 'k"
  AppendInstanceHandler ::
    "'k \<Rightarrow> (ServiceInstance \<Rightarrow> Event \<Rightarrow> 'ds \<Rightarrow> 'ds) \<Rightarrow> string option \<times> 'k"
  AppendConfigHandler ::
    "'k \<Rightarrow> string \<Rightarrow> (Key \<Rightarrow> Message \<Rightarrow> Event \<Rightarrow> 'ds \<Rightarrow> 'ds) \<Rightarrow> string option \<times> 'k"

record ('r, 'k) DiscoveryServiceOptions =
  Options_Services :: ServiceDiscovery
  Options_Controller :: 'k
  Options_Config :: 'r
  Options_Mesh :: ProxyMeshConfig
  Options_Port :: int
  EnableProfiling :: bool
  EnableCaching :: bool

definition serviceHandler :: "Service \<Rightarrow> Event \<Rightarrow> 'r DiscoveryService \<Rightarrow> 'r DiscoveryService" where
  "serviceHandler s e out = clearCache out"

definition instanceHandler ::
    "ServiceInstance \<Rightarrow> Event \<Rightarrow> 'r DiscoveryService \<Rightarrow> 'r DiscoveryService" where
  "instanceHandler s e out = clearCache out"

definition configHandler ::
    "Key \<Rightarrow> Message \<Rightarrow> Event \<Rightarrow> 'r DiscoveryService \<Rightarrow> 'r DiscoveryService" where
  "configHandler k m e out = clearCache out"

definition NewDiscoveryService ::
    "('r, 'c, 'rc) externals \<Rightarrow> ('k, 'r DiscoveryService) Controller \<Rightarrow>
     ('r, 'k) DiscoveryServiceOptions \<Rightarrow> string + ('r DiscoveryService \<times> 'k)" where
  "NewDiscoveryService ext ctl opts =
     (let out = \<lparr>services = Options_Services opts,
                 config = Options_Config opts,
                 mesh = Options_Mesh opts,
                 sdsCache = newDiscoveryCache (EnableCaching opts),
                 cdsCache = newDiscoveryCache (EnableCaching opts),
                 rdsCache = newDiscoveryCache (EnableCaching opts)\<rparr>
      in case AppendServiceHandler ctl (Options_Controller opts) serviceHandler of
           (Some err, k) \<Rightarrow> Inl err
         | (None, k) \<Rightarrow>
             (case AppendInstanceHandler ctl k instanceHandler of
                (Some err, k) \<Rightarrow> Inl err
              | (None, k) \<Rightarrow>
                  (case AppendConfigHandler ctl k (RouteRule_kind ext) configHandler of
                     (Some err, k) \<Rightarrow> Inl err
                   | (None, k) \<Rightarrow>
                       (case AppendConfigHandler ctl k (DestinationPolicy_kind ext) configHandler of
                          (Some err, k) \<Rightarrow> Inl err
                        | (None, k) \<Rightarrow> Inr (out, k)))))"

text \<open>
  Modelled from the spec: the controller that stands behind \<open>model.Controller\<close> is
  not among the sources. Section 4.5 of the spec has it register callbacks per family
  and invoke them serially on each event: the registry keeps the handlers in the order
  they were appended, and \<open>deliver\<close> runs those of the event's family (for a config
  event, those appended for its kind) one after the other.
\<close>

record 'ds Registry =
  serviceHandlers :: "(Service \<Rightarrow> Event \<Rightarrow> 'ds \<Rightarrow> 'ds) list"
  instanceHandlers :: "(ServiceInstance \<Rightarrow> Event \<Rightarrow> 'ds \<Rightarrow> 'ds) list"
  configHandlers :: "(string \<times> (Key \<Rightarrow> Message \<Rightarrow> Event \<Rightarrow> 'ds \<Rightarrow> 'ds)) list"

definition no_handlers :: "'ds Registry" where
  "no_handlers = \<lparr>serviceHandlers = [], instanceHandlers = [], configHandlers = []\<rparr>"

definition registry :: "('ds Registry, 'ds) Controller" where
  "registry =
     \<lparr>AppendServiceHandler = (\<lambda>k f. (None, k\<lparr>serviceHandlers := serviceHandlers k @ [f]\<rparr>)),
      AppendInstanceHandler = (\<lambda>k f. (None, k\<lparr>instanceHandlers := instanceHandlers k @ [f]\<rparr>)),
      AppendConfigHandler =
        (\<lambda>k kind f. (None, k\<lparr>configHandlers := configHandlers k @ [(kind, f)]\<rparr>))\<rparr>"

datatype Notification =
    ServiceChange Service Event
  | InstanceChange ServiceInstance Event
  | ConfigChange string Key Message Event

fun deliver :: "'ds Registry \<Rightarrow> Notification \<Rightarrow> 'ds \<Rightarrow> 'ds" where
  "deliver k (ServiceChange s e) ds = foldl (\<lambda>ds f. f s e ds) ds (serviceHandlers k)"
| "deliver k (InstanceChange i e) ds = foldl (\<lambda>ds f. f i e ds) ds (instanceHandlers k)"
| "deliver k (ConfigChange kind key m e) ds =
     foldl (\<lambda>ds f. f key m e ds) ds (map snd (filter (\<lambda>h. fst h = kind) (configHandlers k)))"

subsection \<open>Vocabulary of the discovery properties\<close>

text \<open>Every entry of a cache has its data evicted; the same of all three caches.\<close>

definition evicted :: "discoveryCache \<Rightarrow> bool" where
  "evicted c = (\<forall>k e. cache c k = Some e \<longrightarrow> data e = None)"

definition all_evicted :: "'r DiscoveryService \<Rightarrow> bool" where
  "all_evicted ds = (evicted (sdsCache ds) \<and> evicted (cdsCache ds) \<and> evicted (rdsCache ds))"

text \<open>Whether a lookup of the key reports a hit.\<close>

definition cached :: "discoveryCache \<Rightarrow> string \<Rightarrow> bool" where
  "cached c key = snd (fst (cachedDiscoveryResponse c key))"

text \<open>The requests and events a running service receives, and their effect on it.\<close>

datatype Operation =
    SDS Request
  | CDS Request
  | RDS Request
  | CacheStats
  | CacheStatsDelete
  | Change

fun perform ::
    "('r, 'c, 'rc) externals \<Rightarrow> 'r DiscoveryService \<Rightarrow> Operation \<Rightarrow> 'r DiscoveryService" where
  "perform ext ds (SDS request) = fst (ListEndpoints ext ds request)"
| "perform ext ds (CDS request) = fst (ListClusters ext ds request)"
| "perform ext ds (RDS request) = fst (ListRoutes ext ds request)"
| "perform ext ds CacheStats = ds"
| "perform ext ds CacheStatsDelete = ClearCacheStats ds"
| "perform ext ds Change = clearCache ds"

definition run ::
    "('r, 'c, 'rc) externals \<Rightarrow> 'r DiscoveryService \<Rightarrow> Operation list \<Rightarrow> 'r DiscoveryService" where
  "run ext ds ops = foldl (perform ext) ds ops"

text \<open>A cache that is switched off and holds no entry.\<close>

definition off_and_empty :: "discoveryCache \<Rightarrow> bool" where
  "off_and_empty c = (disabled c \<and> cache c = Map.empty)"

text \<open>The body of an SDS response: an object whose \<open>hosts\<close> field is an array.\<close>

definition hosts_array_body :: "(string \<Rightarrow> string) \<Rightarrow> string \<Rightarrow> bool" where
  "hosts_array_body q body = (\<exists>hs. body = indent_json q 0 (JObject [(''hosts'', JArray hs)]))"

definition sds_bodies :: "(string \<Rightarrow> string) \<Rightarrow> discoveryCache \<Rightarrow> bool" where
  "sds_bodies q c = (\<forall>k e d. cache c k = Some e \<and> data e = Some d \<longrightarrow> hosts_array_body q d)"

text \<open>The key holds an entry whose data is the body.\<close>

definition stored :: "discoveryCache \<Rightarrow> string \<Rightarrow> string \<Rightarrow> bool" where
  "stored c key body = (\<exists>e. cache c key = Some e \<and> data e = Some body)"

definition all_off :: "'r DiscoveryService \<Rightarrow> bool" where
  "all_off ds =
     (off_and_empty (sdsCache ds) \<and> off_and_empty (cdsCache ds) \<and> off_and_empty (rdsCache ds))"

text \<open>The text of \<open>{"hosts": []}\<close> as \<open>MarshalIndent\<close> lays it out.\<close>

definition empty_hosts_body :: string where
  "empty_hosts_body =
     ''{'' @ [CHR 0x0A] @ ''  '' @ [CHR 0x22] @ ''hosts'' @ [CHR 0x22] @ '': []'' @
     [CHR 0x0A] @ '' }''"

text \<open>The route configurations \<open>ListClusters\<close> and \<open>ListRoutes\<close> compute for a request.\<close>

definition outbound_routes ::
    "('r, 'c, 'rc) externals \<Rightarrow> 'r DiscoveryService \<Rightarrow> Request \<Rightarrow> (int \<rightharpoonup> 'rc)" where
  "outbound_routes ext ds req =
     buildOutboundHTTPRoutes ext
       (HostInstances (services ds) {PathParameter req ServiceNode})
       (Services (services ds))
       \<lparr>Discovery = services ds, Config = config ds, MeshConfig = mesh ds,
        IPAddress = PathParameter req ServiceNode\<rparr>"

text \<open>The clusters \<open>ListClusters\<close> marshals for a request.\<close>

definition outbound_clusters ::
    "('r, 'c, 'rc) externals \<Rightarrow> 'r DiscoveryService \<Rightarrow> Request \<Rightarrow> 'c list" where
  "outbound_clusters ext ds req =
     map (insertDestinationPolicy ext (config ds))
       (normalize ext (clusters ext (outbound_routes ext ds req)))"

text \<open>Concrete collaborators, requests and states.\<close>

definition quoted :: "string \<Rightarrow> string" where
  "quoted s = CHR 0x22 # s @ [CHR 0x22]"

definition example_services :: ServiceDiscovery where
  "example_services =
     \<lparr>Services = [],
      Instances = (\<lambda>hostname ports tags.
                     if hostname = ''hello''
                     then [\<lparr>Endpoint = \<lparr>Endpoint_Address = ''10.1.1.0'', Endpoint_Port = 80\<rparr>,
                            Instance_Tags = []\<rparr>]
                     else []),
      HostInstances = (\<lambda>addrs. [])\<rparr>"

definition example_mesh :: ProxyMeshConfig where
  "example_mesh =
     \<lparr>IstioServiceCluster = ''istio-proxy'', DrainDuration = None,
      ParentShutdownDuration = None\<rparr>"

definition example_ext :: "(unit, string, string) externals" where
  "example_ext =
     \<lparr>ParseServiceKey = (\<lambda>s. (s, [], [])),
      GetNames = map Name,
      buildOutboundHTTPRoutes = (\<lambda>instances svcs ctx. [80 \<mapsto> ''routes'', 81 \<mapsto> ''cyclic'']),
      clusters = (\<lambda>configs. []),
      normalize = (\<lambda>cs. cs),
      insertDestinationPolicy = (\<lambda>r c. c),
      MarshalIndent_ClusterManager = (\<lambda>cs. Inr ''{}''),
      MarshalIndent_HTTPRouteConfig =
        (\<lambda>rc. if rc = ''cyclic'' then Inl ''unsupported value'' else Inr rc),
      Quote = quoted,
      JSONString = quoted,
      RouteRule_kind = ''route-rule'',
      DestinationPolicy_kind = ''destination-policy''\<rparr>"

definition example_options :: "bool \<Rightarrow> (unit, unit DiscoveryService Registry) DiscoveryServiceOptions" where
  "example_options caching =
     \<lparr>Options_Services = example_services, Options_Controller = no_handlers,
      Options_Config = (), Options_Mesh = example_mesh, Options_Port = 8080,
      EnableProfiling = False, EnableCaching = caching\<rparr>"

definition example_cache :: discoveryCache where
  "example_cache =
     \<lparr>disabled = False,
      cache = [''/v1/x'' \<mapsto> \<lparr>data = Some ''body'', hit = 2, miss = 1\<rparr>]\<rparr>"

definition example_service :: "unit DiscoveryService" where
  "example_service =
     \<lparr>services = example_services, config = (), mesh = example_mesh,
      sdsCache = example_cache, cdsCache = example_cache, rdsCache = example_cache\<rparr>"

definition request :: "string \<Rightarrow> (string \<times> string) list \<Rightarrow> Request" where
  "request url params = \<lparr>URL = url, PathParameters = params\<rparr>"

definition example_registry :: "unit DiscoveryService Registry" where
  "example_registry =
     \<lparr>serviceHandlers = [serviceHandler], instanceHandlers = [instanceHandler],
      configHandlers = [(''route-rule'', configHandler), (''destination-policy'', configHandler)]\<rparr>"

definition new_service :: "bool \<Rightarrow> unit DiscoveryService" where
  "new_service caching =
     \<lparr>services = example_services, config = (), mesh = example_mesh,
      sdsCache = newDiscoveryCache caching, cdsCache = newDiscoveryCache caching,
      rdsCache = newDiscoveryCache caching\<rparr>"

definition sds_request :: "string \<Rightarrow> Request" where
  "sds_request k = request (''/v1/registration/'' @ k) [(''service-key'', k)]"

definition cds_request :: "string \<Rightarrow> string \<Rightarrow> Request" where
  "cds_request cluster node =
     request (''/v1/clusters/'' @ cluster @ ''/'' @ node)
       [(''service-cluster'', cluster), (''service-node'', node)]"

definition rds_request :: "string \<Rightarrow> string \<Rightarrow> string \<Rightarrow> Request" where
  "rds_request name cluster node =
     request (''/v1/routes/'' @ name @ ''/'' @ cluster @ ''/'' @ node)
       [(''route-config-name'', name), (''service-cluster'', cluster), (''service-node'', node)]"

section \<open>Package envoy: launching the proxy (src/unnamed/part_002)\<close>















section \<open>Properties: validation\<close>

subsection \<open>Loops that accumulate errors\<close>

lemma Split_nonempty: "Split s sep \<noteq> []"
  by (induction s) (auto split: list.splits)

lemma foldl_invariant:
  "P acc \<Longrightarrow> (\<And>a x. P a \<Longrightarrow> P (f a x)) \<Longrightarrow> P (foldl f acc xs)"
  by (induction xs arbitrary: acc) simp_all


lemma foldl_hostname_parts:
  "foldl (\<lambda>errs part. if \<not> IsDNS1123Label part then Append errs [InvalidHostnamePart part]
                        else errs) errs parts
     = errs @ map InvalidHostnamePart (filter (\<lambda>p. \<not> IsDNS1123Label p) parts)"
  by (induction parts arbitrary: errs) (auto simp: Append_def)

subsection \<open>Service.Validate\<close>

lemma Service_Validate_port_acc:
  "Service_Validate_port n errs p = errs @ Service_Validate_port n [] p"
  by (simp add: Service_Validate_port_def Append_def Let_def)

lemma foldl_Service_Validate_port:
  "foldl (Service_Validate_port n) errs ps = errs @ concat (map (Service_Validate_port n []) ps)"
proof (induction ps arbitrary: errs)
  case Nil
  then show ?case by simp
next
  case (Cons p ps)
  show ?case
    by (simp add: Cons.IH Service_Validate_port_acc [of n errs p])
qed

lemma Service_Validate_eq:
  "Service_Validate s =
     (if Hostname s = [] then [InvalidEmptyHostname] else []) @
     map InvalidHostnamePart (filter (\<lambda>p. \<not> IsDNS1123Label p) (Split (Hostname s) (CHR ''.''))) @
     (if Ports s = [] then [NoDeclaredPort] else []) @
     concat (map (Service_Validate_port (length (Ports s)) []) (Ports s))"
  by (simp add: Service_Validate_def Let_def foldl_hostname_parts foldl_Service_Validate_port
      Append_def)

lemma IsDNS1123Label_Nil: "\<not> IsDNS1123Label []"
  by (simp add: IsDNS1123Label_def dns1123LabelRex_def)

lemma Service_Validate_port_Nil_iff:
  "Service_Validate_port n [] p = [] \<longleftrightarrow> port_ok n p"
  by (auto simp: Service_Validate_port_def Append_def Let_def port_ok_def)

lemma Service_Validate_Nil_iff:
  "Service_Validate s = [] \<longleftrightarrow>
     (\<forall>part \<in> set (Split (Hostname s) (CHR ''.'')). IsDNS1123Label part) \<and>
     Ports s \<noteq> [] \<and>
     (\<forall>p \<in> set (Ports s). port_ok (length (Ports s)) p)"
proof -
  have h: "Hostname s = [] \<Longrightarrow>
      \<not> (\<forall>part \<in> set (Split (Hostname s) (CHR ''.'')). IsDNS1123Label part)"
    by (simp add: IsDNS1123Label_Nil)
  show ?thesis
    using h by (auto simp: Service_Validate_eq filter_empty_conv Service_Validate_port_Nil_iff)
qed

lemma empty_names_only:
  assumes "1 < n"
    and "\<forall>p \<in> set ps. (Name p \<noteq> [] \<longrightarrow> IsDNS1123Label (Name p)) \<and> 0 \<le> Port p"
  shows "concat (map (Service_Validate_port n []) ps) =
           replicate (length (filter (\<lambda>p. Name p = []) ps)) EmptyPortName"
  using assms
  by (induction ps) (auto simp: Service_Validate_port_def Append_def Let_def)

lemma empty_name_reported:
  assumes "1 < length (Ports s)" and "p \<in> set (Ports s)" and "Name p = []"
  shows "EmptyPortName \<in> set (Service_Validate s)"
proof -
  have "EmptyPortName \<in> set (Service_Validate_port (length (Ports s)) [] p)"
    using assms(1,3) by (simp add: Service_Validate_port_def Append_def Let_def)
  with assms(2) show ?thesis
    by (auto simp: Service_Validate_eq)
qed

text \<open>
  C2, as amended. \<open>Service.Validate\<close> has no check of duplicate port names. For every
  service with an empty port name among more than one port, the error holds the
  empty-port-name error; when the hostname labels, the non-empty port names and the
  port numbers are valid, the error is exactly one such entry per empty-named port.
  The validator returns no error exactly when every hostname label is a DNS-1123
  label, there is at least one port, every port name is empty (single port only) or a
  DNS-1123 label, and no port number is negative.
\<close>

theorem Service_Validate_checks:
  "(1 < length (Ports s) \<and> (\<exists>p \<in> set (Ports s). Name p = []) \<longrightarrow>
      EmptyPortName \<in> set (Service_Validate s)) \<and>
   (1 < length (Ports s) \<and>
    (\<forall>part \<in> set (Split (Hostname s) (CHR ''.'')). IsDNS1123Label part) \<and>
    (\<forall>p \<in> set (Ports s). (Name p \<noteq> [] \<longrightarrow> IsDNS1123Label (Name p)) \<and> 0 \<le> Port p) \<longrightarrow>
      Service_Validate s =
        replicate (length (filter (\<lambda>p. Name p = []) (Ports s))) EmptyPortName) \<and>
   (Service_Validate s = [] \<longleftrightarrow>
      (\<forall>part \<in> set (Split (Hostname s) (CHR ''.'')). IsDNS1123Label part) \<and>
      Ports s \<noteq> [] \<and>
      (\<forall>p \<in> set (Ports s). port_ok (length (Ports s)) p))"
proof (intro conjI impI)
  assume "1 < length (Ports s) \<and> (\<exists>p \<in> set (Ports s). Name p = [])"
  then show "EmptyPortName \<in> set (Service_Validate s)"
    using empty_name_reported by blast
next
  assume a: "1 < length (Ports s) \<and>
    (\<forall>part \<in> set (Split (Hostname s) (CHR ''.'')). IsDNS1123Label part) \<and>
    (\<forall>p \<in> set (Ports s). (Name p \<noteq> [] \<longrightarrow> IsDNS1123Label (Name p)) \<and> 0 \<le> Port p)"
  then have host: "Hostname s \<noteq> []"
    using IsDNS1123Label_Nil by auto
  from a have ports: "Ports s \<noteq> []" by auto
  from a have parts: "filter (\<lambda>p. \<not> IsDNS1123Label p) (Split (Hostname s) (CHR ''.'')) = []"
    by (simp add: filter_empty_conv)
  from a have "concat (map (Service_Validate_port (length (Ports s)) []) (Ports s)) =
      replicate (length (filter (\<lambda>p. Name p = []) (Ports s))) EmptyPortName"
    by (intro empty_names_only) simp_all
  with host ports parts
  show "Service_Validate s =
      replicate (length (filter (\<lambda>p. Name p = []) (Ports s))) EmptyPortName"
    by (simp add: Service_Validate_eq)
next
  show "Service_Validate s = [] \<longleftrightarrow>
      (\<forall>part \<in> set (Split (Hostname s) (CHR ''.'')). IsDNS1123Label part) \<and>
      Ports s \<noteq> [] \<and>
      (\<forall>p \<in> set (Ports s). port_ok (length (Ports s)) p)"
    by (rule Service_Validate_Nil_iff)
qed

theorem Service_Validate_checks_witness:
  "EmptyPortName \<in> set (Service_Validate (service_with [unnamed_port 80, http_port 81])) \<and>
   Service_Validate (service_with [unnamed_port 80, http_port 81]) = [EmptyPortName] \<and>
   Service_Validate (service_with [http_port 80]) = [] \<and>
   port_ok 1 (http_port 80)"
  using Service_Validate_checks [of "service_with [unnamed_port 80, http_port 81]"]
    Service_Validate_checks [of "service_with [http_port 80]"]
  by (simp add: service_with_def unnamed_port_def http_port_def port_ok_def IsDNS1123Label_def
      dns1123LabelRex_def dns1123LabelMaxLength_def lower_alnum_def in_range_def)

text \<open>
  C2 as stated fails twice: two ports that share the name \<open>http\<close> get no error, and a
  service that meets every invariant the claim lists (one port, named \<open>HTTP\<close>) gets one.
\<close>

theorem Service_Validate_counterexample:
  "\<not> distinct (map Name (Ports (service_with [http_port 80, http_port 81]))) \<and>
   Service_Validate (service_with [http_port 80, http_port 81]) = [] \<and>
   list_all IsDNS1123Label (Split (Hostname (service_with [upper_port 80])) (CHR ''.'')) \<and>
   length (Ports (service_with [upper_port 80])) = 1 \<and>
   distinct (map Name (Ports (service_with [upper_port 80]))) \<and>
   Name (upper_port 80) \<noteq> [] \<and> 0 \<le> Port (upper_port 80) \<and>
   Service_Validate (service_with [upper_port 80]) = [InvalidName ''HTTP'']"
  by (simp add: Service_Validate_def Service_Validate_port_def service_with_def http_port_def
      upper_port_def Append_def IsDNS1123Label_def dns1123LabelRex_def
      dns1123LabelMaxLength_def lower_alnum_def in_range_def)

subsection \<open>The weight sum\<close>






subsection \<open>No other validator reports a weight sum\<close>

lemma no_weight_error_simps [simp]:
  "no_weight_error []"
  "no_weight_error (e # es) \<longleftrightarrow> \<not> weight_sum_error e \<and> no_weight_error es"
  "no_weight_error (xs @ ys) \<longleftrightarrow> no_weight_error xs \<and> no_weight_error ys"
  "no_weight_error (Append xs ys) \<longleftrightarrow> no_weight_error xs \<and> no_weight_error ys"
  by (auto simp: no_weight_error_def Append_def)

lemma nwe_validateFQDN [simp]: "no_weight_error (validateFQDN s)"
  by (simp add: validateFQDN_def split: option.splits)

lemma nwe_Tags_Validate [simp]: "no_weight_error (Tags_Validate t)"
  unfolding Tags_Validate_def
  by (rule foldl_invariant) (auto simp: Let_def)

lemma nwe_validateSubnet [simp]: "no_weight_error (validateSubnet s)"
  by (simp add: validateSubnet_def validateIPv4Subnet_def validateCIDRBlock_def
      validateIPv4Address_def Let_def split: option.splits)

lemma nwe_ValidateL4MatchAttributes [simp]: "no_weight_error (ValidateL4MatchAttributes ma)"
  unfolding ValidateL4MatchAttributes_def Let_def
  by (rule foldl_invariant, rule foldl_invariant) simp_all

lemma nwe_ValidateMatchCondition [simp]: "no_weight_error (ValidateMatchCondition mc)"
  by (simp add: ValidateMatchCondition_def Let_def split: option.splits)

lemma nwe_validatePercent [simp]:
  "no_weight_error (validatePercent errs v l) \<longleftrightarrow> no_weight_error errs"
  by (simp add: validatePercent_def)

lemma nwe_validateFloatPercent [simp]:
  "no_weight_error (validateFloatPercent errs v l) \<longleftrightarrow> no_weight_error errs"
  by (simp add: validateFloatPercent_def)

lemma nwe_ValidateDestinationWeight [simp]: "no_weight_error (ValidateDestinationWeight dw)"
  by (simp add: ValidateDestinationWeight_def Let_def)

lemma nwe_ValidateHTTPTimeout [simp]: "no_weight_error (ValidateHTTPTimeout t)"
  by (simp add: ValidateHTTPTimeout_def split: option.splits)

lemma nwe_ValidateHTTPRetries [simp]: "no_weight_error (ValidateHTTPRetries r)"
  by (simp add: ValidateHTTPRetries_def split: option.splits)

lemma nwe_validateDelay [simp]: "no_weight_error (validateDelay d)"
  by (simp add: validateDelay_def Let_def)

lemma nwe_validateAbort [simp]: "no_weight_error (validateAbort a)"
  by (simp add: validateAbort_def validateAbortHTTPStatus_def Let_def split: ErrorType.splits)

lemma nwe_ValidateHTTPFault [simp]: "no_weight_error (ValidateHTTPFault f)"
  by (simp add: ValidateHTTPFault_def Let_def split: option.splits)

lemma nwe_ValidateL4Fault [simp]: "no_weight_error (ValidateL4Fault f)"
  by (simp add: ValidateL4Fault_def validateTerminate_def validateThrottle_def Let_def
      split: option.splits)




subsection \<open>Aborts\<close>



section \<open>Properties: the discovery cache\<close>

lemma cached_iff:
  "cached c key \<longleftrightarrow> \<not> disabled c \<and> (\<exists>e d. cache c key = Some e \<and> data e = Some d)"
  by (cases "disabled c") (auto simp: cached_def cachedDiscoveryResponse_def split: option.splits)

lemma lookup_miss:
  "\<not> cached c key \<Longrightarrow> cachedDiscoveryResponse c key = ((None, False), c)"
  by (cases "disabled c") (auto simp: cached_def cachedDiscoveryResponse_def split: option.splits)

lemma lookup_hit:
  assumes "cached c key"
  shows "\<exists>e d. cache c key = Some e \<and> data e = Some d \<and>
           cachedDiscoveryResponse c key =
             ((Some d, True), c\<lparr>cache := (cache c)(key \<mapsto> e\<lparr>hit := hit e + 1\<rparr>)\<rparr>)"
  using assms
  by (auto simp: cached_def cachedDiscoveryResponse_def split: option.splits if_splits)

lemma clear_lookup: "cache (clear c) k = map_option (\<lambda>v. v\<lparr>data := None\<rparr>) (cache c k)"
  by (simp add: clear_def)

lemma evicted_clear: "evicted (clear c)"
  by (auto simp: evicted_def clear_lookup)

lemma not_cached_clear: "\<not> cached (clear c) key"
  by (auto simp: cached_iff clear_lookup)

lemma all_evicted_clearCache: "all_evicted (clearCache ds)"
  by (simp add: all_evicted_def clearCache_def evicted_clear)

subsection \<open>Invalidation\<close>

lemma foldl_last_handler:
  "foldl (\<lambda>ds f. g f ds) ds (hs @ [h]) = g h (foldl (\<lambda>ds f. g f ds) ds hs)"
  by simp

text \<open>
  C4. Each handler the discovery service registers (the service handler, the instance
  handler and the config handler, registered for the kinds \<open>RouteRule\<close> and
  \<open>DestinationPolicy\<close>) clears all three caches: whatever the notification and the
  state, after the handler returns every entry of the SDS, CDS and RDS caches has its
  data evicted. With the registry as controller, \<open>NewDiscoveryService\<close> appends
  exactly these four registrations, and delivering a service, instance, route-rule or
  destination-policy change leaves every entry evicted.
\<close>

theorem handlers_clear_all_caches:
  "all_evicted (serviceHandler s e ds) \<and>
   all_evicted (instanceHandler i e ds) \<and>
   all_evicted (configHandler key m e ds) \<and>
   (NewDiscoveryService ext registry opts = Inr (out, k) \<longrightarrow>
      serviceHandlers k = serviceHandlers (Options_Controller opts) @ [serviceHandler] \<and>
      instanceHandlers k = instanceHandlers (Options_Controller opts) @ [instanceHandler] \<and>
      configHandlers k =
        configHandlers (Options_Controller opts) @
        [(RouteRule_kind ext, configHandler), (DestinationPolicy_kind ext, configHandler)] \<and>
      all_evicted (deliver k (ServiceChange s e) ds) \<and>
      all_evicted (deliver k (InstanceChange i e) ds) \<and>
      all_evicted (deliver k (ConfigChange (RouteRule_kind ext) key m e) ds) \<and>
      all_evicted (deliver k (ConfigChange (DestinationPolicy_kind ext) key m e) ds))"
proof (intro conjI impI)
  show "all_evicted (serviceHandler s e ds)"
    by (simp add: serviceHandler_def all_evicted_clearCache)
  show "all_evicted (instanceHandler i e ds)"
    by (simp add: instanceHandler_def all_evicted_clearCache)
  show "all_evicted (configHandler key m e ds)"
    by (simp add: configHandler_def all_evicted_clearCache)
next
  assume new: "NewDiscoveryService ext registry opts = Inr (out, k)"
  then have k: "k = (Options_Controller opts)
      \<lparr>serviceHandlers := serviceHandlers (Options_Controller opts) @ [serviceHandler],
       instanceHandlers := instanceHandlers (Options_Controller opts) @ [instanceHandler],
       configHandlers := configHandlers (Options_Controller opts) @
         [(RouteRule_kind ext, configHandler), (DestinationPolicy_kind ext, configHandler)]\<rparr>"
    by (auto simp: NewDiscoveryService_def registry_def Let_def)
  show "serviceHandlers k = serviceHandlers (Options_Controller opts) @ [serviceHandler]"
    by (simp add: k)
  show "instanceHandlers k = instanceHandlers (Options_Controller opts) @ [instanceHandler]"
    by (simp add: k)
  show "configHandlers k =
        configHandlers (Options_Controller opts) @
        [(RouteRule_kind ext, configHandler), (DestinationPolicy_kind ext, configHandler)]"
    by (simp add: k)
  show "all_evicted (deliver k (ServiceChange s e) ds)"
    by (simp add: k serviceHandler_def all_evicted_clearCache)
  show "all_evicted (deliver k (InstanceChange i e) ds)"
    by (simp add: k instanceHandler_def all_evicted_clearCache)
  show "all_evicted (deliver k (ConfigChange (RouteRule_kind ext) key m e) ds)"
    by (simp add: k configHandler_def all_evicted_clearCache)
  show "all_evicted (deliver k (ConfigChange (DestinationPolicy_kind ext) key m e) ds)"
    by (simp add: k configHandler_def all_evicted_clearCache)
qed

section \<open>Properties: the discovery handlers\<close>

lemma status_simps [simp]:
  "StatusCode (writeResponse d) = StatusOK"
  "StatusCode (errorResponse st msg) = st"
  "Body (errorResponse st msg) = msg"
  "Body (writeResponse (Some b)) = b"
  "StatusNotFound \<noteq> StatusOK" "StatusInternalServerError \<noteq> StatusOK"
  by (simp_all add: writeResponse_def errorResponse_def StatusOK_def StatusNotFound_def
      StatusInternalServerError_def)

lemma ListEndpoints_hit:
  assumes "cached (sdsCache ds) (URL req)"
  shows "\<exists>e d. cache (sdsCache ds) (URL req) = Some e \<and> data e = Some d \<and>
           ListEndpoints ext ds req =
             (ds\<lparr>sdsCache := (sdsCache ds)\<lparr>cache := (cache (sdsCache ds))
                                   (URL req \<mapsto> e\<lparr>hit := hit e + 1\<rparr>)\<rparr>\<rparr>,
              writeResponse (Some d))"
proof -
  obtain e d where "cache (sdsCache ds) (URL req) = Some e" "data e = Some d"
    and "cachedDiscoveryResponse (sdsCache ds) (URL req) =
      ((Some d, True), (sdsCache ds)\<lparr>cache := (cache (sdsCache ds))
                                   (URL req \<mapsto> e\<lparr>hit := hit e + 1\<rparr>)\<rparr>)"
    using lookup_hit [OF assms] by blast
  then show ?thesis
    by (simp add: ListEndpoints_def Let_def)
qed

lemma ListClusters_hit:
  assumes "cached (cdsCache ds) (URL req)"
  shows "\<exists>e d. cache (cdsCache ds) (URL req) = Some e \<and> data e = Some d \<and>
           ListClusters ext ds req =
             (ds\<lparr>cdsCache := (cdsCache ds)\<lparr>cache := (cache (cdsCache ds))
                                   (URL req \<mapsto> e\<lparr>hit := hit e + 1\<rparr>)\<rparr>\<rparr>,
              writeResponse (Some d))"
proof -
  obtain e d where "cache (cdsCache ds) (URL req) = Some e" "data e = Some d"
    and "cachedDiscoveryResponse (cdsCache ds) (URL req) =
      ((Some d, True), (cdsCache ds)\<lparr>cache := (cache (cdsCache ds))
                                   (URL req \<mapsto> e\<lparr>hit := hit e + 1\<rparr>)\<rparr>)"
    using lookup_hit [OF assms] by blast
  then show ?thesis
    by (simp add: ListClusters_def Let_def)
qed

lemma ListRoutes_hit:
  assumes "cached (rdsCache ds) (URL req)"
  shows "\<exists>e d. cache (rdsCache ds) (URL req) = Some e \<and> data e = Some d \<and>
           ListRoutes ext ds req =
             (ds\<lparr>rdsCache := (rdsCache ds)\<lparr>cache := (cache (rdsCache ds))
                                   (URL req \<mapsto> e\<lparr>hit := hit e + 1\<rparr>)\<rparr>\<rparr>,
              writeResponse (Some d))"
proof -
  obtain e d where "cache (rdsCache ds) (URL req) = Some e" "data e = Some d"
    and "cachedDiscoveryResponse (rdsCache ds) (URL req) =
      ((Some d, True), (rdsCache ds)\<lparr>cache := (cache (rdsCache ds))
                                   (URL req \<mapsto> e\<lparr>hit := hit e + 1\<rparr>)\<rparr>)"
    using lookup_hit [OF assms] by blast
  then show ?thesis
    by (simp add: ListRoutes_def Let_def)
qed

lemma ListEndpoints_miss:
  assumes "\<not> cached (sdsCache ds) (URL req)"
  shows "\<exists>hs. ListEndpoints ext ds req =
           (ds\<lparr>sdsCache := updateCachedDiscoveryResponse (sdsCache ds) (URL req)
                   (Some (indent_json (JSONString ext) 0 (hosts_json \<lparr>Hosts = Some hs\<rparr>)))\<rparr>,
            writeResponse (Some (indent_json (JSONString ext) 0 (hosts_json \<lparr>Hosts = Some hs\<rparr>))))"
proof -
  obtain hostname ports tags
    where p: "ParseServiceKey ext (PathParameter req ServiceKey) = (hostname, ports, tags)"
    by (cases "ParseServiceKey ext (PathParameter req ServiceKey)") auto
  show ?thesis
    using lookup_miss [OF assms] p
    by (intro exI) (simp add: ListEndpoints_def Let_def MarshalIndent_hosts_def)
qed

lemma ListClusters_error_keeps:
  "StatusCode (snd (ListClusters ext ds req)) \<noteq> StatusOK \<Longrightarrow> fst (ListClusters ext ds req) = ds"
proof (cases "cached (cdsCache ds) (URL req)")
  case True
  assume "StatusCode (snd (ListClusters ext ds req)) \<noteq> StatusOK"
  with ListClusters_hit [OF True, of ext] show ?thesis by auto
next
  case False
  assume "StatusCode (snd (ListClusters ext ds req)) \<noteq> StatusOK"
  with lookup_miss [OF False] show ?thesis
    by (auto simp: ListClusters_def Let_def split: sum.splits if_splits)
qed

lemma ListRoutes_error_keeps:
  "StatusCode (snd (ListRoutes ext ds req)) \<noteq> StatusOK \<Longrightarrow> fst (ListRoutes ext ds req) = ds"
proof (cases "cached (rdsCache ds) (URL req)")
  case True
  assume "StatusCode (snd (ListRoutes ext ds req)) \<noteq> StatusOK"
  with ListRoutes_hit [OF True, of ext] show ?thesis by auto
next
  case False
  assume "StatusCode (snd (ListRoutes ext ds req)) \<noteq> StatusOK"
  with lookup_miss [OF False] show ?thesis
    by (auto simp: ListRoutes_def Let_def split: sum.splits if_splits option.splits)
qed

lemma ListEndpoints_ok: "StatusCode (snd (ListEndpoints ext ds req)) = StatusOK"
proof (cases "cached (sdsCache ds) (URL req)")
  case True
  with ListEndpoints_hit [OF True, of ext] show ?thesis by auto
next
  case False
  with ListEndpoints_miss [OF False, of ext] show ?thesis by auto
qed

lemma stored_update:
  "\<not> disabled c \<Longrightarrow> stored (updateCachedDiscoveryResponse c key (Some b)) key b"
  by (simp add: stored_def updateCachedDiscoveryResponse_def Let_def)

lemma disabled_clear [simp]: "disabled (clear c) = disabled c"
  by (simp add: clear_def)

lemma caches_clearCache [simp]:
  "sdsCache (clearCache ds) = clear (sdsCache ds)"
  "cdsCache (clearCache ds) = clear (cdsCache ds)"
  "rdsCache (clearCache ds) = clear (rdsCache ds)"
  by (simp_all add: clearCache_def)

lemma ListEndpoints_stores:
  assumes "\<not> cached (sdsCache ds) (URL req)" "\<not> disabled (sdsCache ds)"
  shows "stored (sdsCache (fst (ListEndpoints ext ds req))) (URL req)
           (Body (snd (ListEndpoints ext ds req)))"
  using ListEndpoints_miss [OF assms(1), of ext] assms(2)
  by (auto simp: stored_update)

lemma ListClusters_stores:
  assumes "\<not> cached (cdsCache ds) (URL req)" "\<not> disabled (cdsCache ds)"
    and "StatusCode (snd (ListClusters ext ds req)) = StatusOK"
  shows "stored (cdsCache (fst (ListClusters ext ds req))) (URL req)
           (Body (snd (ListClusters ext ds req)))"
  using lookup_miss [OF assms(1)] assms(2,3)
  by (auto simp: ListClusters_def Let_def stored_update split: sum.splits if_splits)

lemma ListRoutes_stores:
  assumes "\<not> cached (rdsCache ds) (URL req)" "\<not> disabled (rdsCache ds)"
    and "StatusCode (snd (ListRoutes ext ds req)) = StatusOK"
  shows "stored (rdsCache (fst (ListRoutes ext ds req))) (URL req)
           (Body (snd (ListRoutes ext ds req)))"
  using lookup_miss [OF assms(1)] assms(2,3)
  by (auto simp: ListRoutes_def Let_def stored_update split: sum.splits if_splits option.splits)

text \<open>
  C5. For every cache, \<open>clear\<close> keeps the key set and the disabled flag and maps each
  entry to itself with \<open>data\<close> evicted, so the hit and miss counters are unchanged.
  A lookup of any key of the cleared cache reports a miss and leaves the cache as it
  is; the update that follows a recomputation stores the data and adds one to the miss
  counter. After \<open>clearCache\<close> a request that is answered with status 200 has stored
  its body under its key.
\<close>

theorem clear_keeps_keys_and_counters:
  "dom (cache (clear c)) = dom (cache c) \<and>
   disabled (clear c) = disabled c \<and>
   (\<forall>k e. cache c k = Some e \<longrightarrow> cache (clear c) k = Some (e\<lparr>data := None\<rparr>)) \<and>
   (\<forall>k. cachedDiscoveryResponse (clear c) k = ((None, False), clear c)) \<and>
   (\<forall>k e d. \<not> disabled c \<and> cache c k = Some e \<longrightarrow>
      cache (updateCachedDiscoveryResponse (clear c) k (Some d)) k =
        Some (e\<lparr>data := Some d, miss := miss e + 1\<rparr>)) \<and>
   (\<not> disabled (sdsCache ds) \<longrightarrow>
      stored (sdsCache (fst (ListEndpoints ext (clearCache ds) req))) (URL req)
        (Body (snd (ListEndpoints ext (clearCache ds) req)))) \<and>
   (\<not> disabled (cdsCache ds) \<and> StatusCode (snd (ListClusters ext (clearCache ds) req)) = StatusOK \<longrightarrow>
      stored (cdsCache (fst (ListClusters ext (clearCache ds) req))) (URL req)
        (Body (snd (ListClusters ext (clearCache ds) req)))) \<and>
   (\<not> disabled (rdsCache ds) \<and> StatusCode (snd (ListRoutes ext (clearCache ds) req)) = StatusOK \<longrightarrow>
      stored (rdsCache (fst (ListRoutes ext (clearCache ds) req))) (URL req)
        (Body (snd (ListRoutes ext (clearCache ds) req))))"
proof (intro conjI allI impI)
  show "dom (cache (clear c)) = dom (cache c)"
    by (auto simp: clear_lookup dom_def)
  show "disabled (clear c) = disabled c"
    by simp
  show "cache (clear c) k = Some (e\<lparr>data := None\<rparr>)" if "cache c k = Some e" for k e
    using that by (simp add: clear_lookup)
  show "cachedDiscoveryResponse (clear c) k = ((None, False), clear c)" for k
    by (rule lookup_miss) (rule not_cached_clear)
  show "cache (updateCachedDiscoveryResponse (clear c) k (Some d)) k =
      Some (e\<lparr>data := Some d, miss := miss e + 1\<rparr>)"
    if "\<not> disabled c \<and> cache c k = Some e" for k e d
    using that by (simp add: updateCachedDiscoveryResponse_def clear_lookup Let_def)
  show "stored (sdsCache (fst (ListEndpoints ext (clearCache ds) req))) (URL req)
        (Body (snd (ListEndpoints ext (clearCache ds) req)))"
    if "\<not> disabled (sdsCache ds)"
    using that by (intro ListEndpoints_stores) (simp_all add: not_cached_clear)
  show "stored (cdsCache (fst (ListClusters ext (clearCache ds) req))) (URL req)
        (Body (snd (ListClusters ext (clearCache ds) req)))"
    if "\<not> disabled (cdsCache ds) \<and> StatusCode (snd (ListClusters ext (clearCache ds) req)) = StatusOK"
    using that by (intro ListClusters_stores) (simp_all add: not_cached_clear)
  show "stored (rdsCache (fst (ListRoutes ext (clearCache ds) req))) (URL req)
        (Body (snd (ListRoutes ext (clearCache ds) req)))"
    if "\<not> disabled (rdsCache ds) \<and> StatusCode (snd (ListRoutes ext (clearCache ds) req)) = StatusOK"
    using that by (intro ListRoutes_stores) (simp_all add: not_cached_clear)
qed

text \<open>
  C6. For every CDS or RDS request that is not answered from the cache and whose
  \<open>service-cluster\<close> path parameter differs from the mesh's cluster name, the handler
  answers with status 404 and the message \<open>Unexpected service-cluster\<close> followed by
  the offending value as \<open>%q\<close> prints it, and leaves the service as it was.
\<close>

theorem wrong_service_cluster:
  assumes "PathParameter req ServiceCluster \<noteq> IstioServiceCluster (mesh ds)"
  shows "(\<not> cached (cdsCache ds) (URL req) \<longrightarrow>
            ListClusters ext ds req =
              (ds, \<lparr>StatusCode = 404,
                    Body = ''Unexpected service-cluster '' @
                           Quote ext (PathParameter req ServiceCluster)\<rparr>)) \<and>
         (\<not> cached (rdsCache ds) (URL req) \<longrightarrow>
            ListRoutes ext ds req =
              (ds, \<lparr>StatusCode = 404,
                    Body = ''Unexpected service-cluster '' @
                           Quote ext (PathParameter req ServiceCluster)\<rparr>))"
  using assms
  by (auto simp: ListClusters_def ListRoutes_def Let_def lookup_miss errorResponse_def
      StatusNotFound_def ServiceCluster_def)

lemma error_status:
  "StatusCode (snd (ListClusters ext ds req)) = StatusOK \<or>
   StatusCode (snd (ListClusters ext ds req)) = 404 \<or>
   StatusCode (snd (ListClusters ext ds req)) = 500"
  "StatusCode (snd (ListRoutes ext ds req)) = StatusOK \<or>
   StatusCode (snd (ListRoutes ext ds req)) = 404 \<or>
   StatusCode (snd (ListRoutes ext ds req)) = 500"
proof -
  show "StatusCode (snd (ListClusters ext ds req)) = StatusOK \<or>
   StatusCode (snd (ListClusters ext ds req)) = 404 \<or>
   StatusCode (snd (ListClusters ext ds req)) = 500"
  proof (cases "cached (cdsCache ds) (URL req)")
    case True
    with ListClusters_hit [OF True, of ext] show ?thesis by auto
  next
    case False
    with lookup_miss [OF False] show ?thesis
      by (auto simp: ListClusters_def Let_def StatusNotFound_def StatusInternalServerError_def
          split: sum.splits if_splits)
  qed
  show "StatusCode (snd (ListRoutes ext ds req)) = StatusOK \<or>
   StatusCode (snd (ListRoutes ext ds req)) = 404 \<or>
   StatusCode (snd (ListRoutes ext ds req)) = 500"
  proof (cases "cached (rdsCache ds) (URL req)")
    case True
    with ListRoutes_hit [OF True, of ext] show ?thesis by auto
  next
    case False
    with lookup_miss [OF False] show ?thesis
      by (auto simp: ListRoutes_def Let_def StatusNotFound_def StatusInternalServerError_def
          split: sum.splits if_splits option.splits)
  qed
qed

lemma ListClusters_marshal_error:
  assumes "\<not> cached (cdsCache ds) (URL req)"
    and "PathParameter req ServiceCluster = IstioServiceCluster (mesh ds)"
    and "MarshalIndent_ClusterManager ext (outbound_clusters ext ds req) = Inl err"
  shows "ListClusters ext ds req = (ds, \<lparr>StatusCode = 500, Body = err\<rparr>)"
  using lookup_miss [OF assms(1)] assms(2,3)
  by (simp add: ListClusters_def Let_def outbound_clusters_def outbound_routes_def
      errorResponse_def StatusInternalServerError_def)

lemma ListRoutes_errors:
  assumes "\<not> cached (rdsCache ds) (URL req)"
    and "PathParameter req ServiceCluster = IstioServiceCluster (mesh ds)"
  shows "Atoi (PathParameter req RouteConfigName) = None \<Longrightarrow>
           ListRoutes ext ds req =
             (ds, \<lparr>StatusCode = 404,
                   Body = ''Unexpected route-config-name '' @
                          Quote ext (PathParameter req RouteConfigName)\<rparr>)"
    and "Atoi (PathParameter req RouteConfigName) = Some port \<Longrightarrow>
         outbound_routes ext ds req port = None \<Longrightarrow>
           ListRoutes ext ds req =
             (ds, \<lparr>StatusCode = 404, Body = ''Missing route config for port '' @ itoa port\<rparr>)"
    and "Atoi (PathParameter req RouteConfigName) = Some port \<Longrightarrow>
         outbound_routes ext ds req port = Some rc \<Longrightarrow>
         MarshalIndent_HTTPRouteConfig ext rc = Inl err \<Longrightarrow>
           ListRoutes ext ds req = (ds, \<lparr>StatusCode = 500, Body = err\<rparr>)"
  using lookup_miss [OF assms(1)] assms(2)
  by (simp_all add: ListRoutes_def Let_def outbound_routes_def errorResponse_def
      StatusInternalServerError_def StatusNotFound_def RouteConfigName_def)

text \<open>
  C9. An SDS request never ends in an error response (marshalling the hosts cannot
  fail). A CDS or RDS request whose response is not 200 has status 404 or 500 and
  leaves the whole service, hence each cache with its entries, data and counters,
  unchanged. The error responses are: 404 for a wrong service-cluster, for a
  route-config-name that is not a number and for a missing route configuration; 500
  with the error's text for a marshalling failure.
\<close>

theorem error_response_keeps_caches:
  "StatusCode (snd (ListEndpoints ext ds req)) = StatusOK \<and>
   (StatusCode (snd (ListClusters ext ds req)) \<noteq> StatusOK \<longrightarrow>
      fst (ListClusters ext ds req) = ds \<and>
      (StatusCode (snd (ListClusters ext ds req)) = 404 \<or>
       StatusCode (snd (ListClusters ext ds req)) = 500)) \<and>
   (StatusCode (snd (ListRoutes ext ds req)) \<noteq> StatusOK \<longrightarrow>
      fst (ListRoutes ext ds req) = ds \<and>
      (StatusCode (snd (ListRoutes ext ds req)) = 404 \<or>
       StatusCode (snd (ListRoutes ext ds req)) = 500)) \<and>
   (\<not> cached (cdsCache ds) (URL req) \<and>
    PathParameter req ServiceCluster \<noteq> IstioServiceCluster (mesh ds) \<longrightarrow>
      fst (ListClusters ext ds req) = ds \<and> StatusCode (snd (ListClusters ext ds req)) = 404) \<and>
   (\<not> cached (cdsCache ds) (URL req) \<and>
    PathParameter req ServiceCluster = IstioServiceCluster (mesh ds) \<and>
    MarshalIndent_ClusterManager ext (outbound_clusters ext ds req) = Inl err \<longrightarrow>
      ListClusters ext ds req = (ds, \<lparr>StatusCode = 500, Body = err\<rparr>)) \<and>
   (\<not> cached (rdsCache ds) (URL req) \<and>
    PathParameter req ServiceCluster \<noteq> IstioServiceCluster (mesh ds) \<longrightarrow>
      fst (ListRoutes ext ds req) = ds \<and> StatusCode (snd (ListRoutes ext ds req)) = 404) \<and>
   (\<not> cached (rdsCache ds) (URL req) \<and>
    PathParameter req ServiceCluster = IstioServiceCluster (mesh ds) \<and>
    Atoi (PathParameter req RouteConfigName) = None \<longrightarrow>
      ListRoutes ext ds req =
        (ds, \<lparr>StatusCode = 404,
              Body = ''Unexpected route-config-name '' @
                     Quote ext (PathParameter req RouteConfigName)\<rparr>)) \<and>
   (\<not> cached (rdsCache ds) (URL req) \<and>
    PathParameter req ServiceCluster = IstioServiceCluster (mesh ds) \<and>
    Atoi (PathParameter req RouteConfigName) = Some port \<and>
    outbound_routes ext ds req port = None \<longrightarrow>
      ListRoutes ext ds req =
        (ds, \<lparr>StatusCode = 404, Body = ''Missing route config for port '' @ itoa port\<rparr>)) \<and>
   (\<not> cached (rdsCache ds) (URL req) \<and>
    PathParameter req ServiceCluster = IstioServiceCluster (mesh ds) \<and>
    Atoi (PathParameter req RouteConfigName) = Some port \<and>
    outbound_routes ext ds req port = Some rc \<and>
    MarshalIndent_HTTPRouteConfig ext rc = Inl err \<longrightarrow>
      ListRoutes ext ds req = (ds, \<lparr>StatusCode = 500, Body = err\<rparr>))"
proof (intro conjI impI)
  show "StatusCode (snd (ListEndpoints ext ds req)) = StatusOK"
    by (rule ListEndpoints_ok)
  show "fst (ListClusters ext ds req) = ds"
    if "StatusCode (snd (ListClusters ext ds req)) \<noteq> StatusOK"
    using that by (rule ListClusters_error_keeps)
  show "StatusCode (snd (ListClusters ext ds req)) = 404 \<or>
       StatusCode (snd (ListClusters ext ds req)) = 500"
    if "StatusCode (snd (ListClusters ext ds req)) \<noteq> StatusOK"
    using that error_status(1) [of ext ds req] by blast
  show "fst (ListRoutes ext ds req) = ds"
    if "StatusCode (snd (ListRoutes ext ds req)) \<noteq> StatusOK"
    using that by (rule ListRoutes_error_keeps)
  show "StatusCode (snd (ListRoutes ext ds req)) = 404 \<or>
       StatusCode (snd (ListRoutes ext ds req)) = 500"
    if "StatusCode (snd (ListRoutes ext ds req)) \<noteq> StatusOK"
    using that error_status(2) [of ext ds req] by blast
  show "fst (ListClusters ext ds req) = ds"
    if "\<not> cached (cdsCache ds) (URL req) \<and>
        PathParameter req ServiceCluster \<noteq> IstioServiceCluster (mesh ds)"
    using that by (simp add: ListClusters_def Let_def lookup_miss)
  show "StatusCode (snd (ListClusters ext ds req)) = 404"
    if "\<not> cached (cdsCache ds) (URL req) \<and>
        PathParameter req ServiceCluster \<noteq> IstioServiceCluster (mesh ds)"
    using that by (simp add: ListClusters_def Let_def lookup_miss StatusNotFound_def)
  show "ListClusters ext ds req = (ds, \<lparr>StatusCode = 500, Body = err\<rparr>)"
    if "\<not> cached (cdsCache ds) (URL req) \<and>
        PathParameter req ServiceCluster = IstioServiceCluster (mesh ds) \<and>
        MarshalIndent_ClusterManager ext (outbound_clusters ext ds req) = Inl err"
    using that ListClusters_marshal_error [of ds req ext err] by blast
  show "fst (ListRoutes ext ds req) = ds"
    if "\<not> cached (rdsCache ds) (URL req) \<and>
        PathParameter req ServiceCluster \<noteq> IstioServiceCluster (mesh ds)"
    using that by (simp add: ListRoutes_def Let_def lookup_miss)
  show "StatusCode (snd (ListRoutes ext ds req)) = 404"
    if "\<not> cached (rdsCache ds) (URL req) \<and>
        PathParameter req ServiceCluster \<noteq> IstioServiceCluster (mesh ds)"
    using that by (simp add: ListRoutes_def Let_def lookup_miss StatusNotFound_def)
  show "ListRoutes ext ds req =
        (ds, \<lparr>StatusCode = 404,
              Body = ''Unexpected route-config-name '' @
                     Quote ext (PathParameter req RouteConfigName)\<rparr>)"
    if "\<not> cached (rdsCache ds) (URL req) \<and>
        PathParameter req ServiceCluster = IstioServiceCluster (mesh ds) \<and>
        Atoi (PathParameter req RouteConfigName) = None"
    using that ListRoutes_errors(1) [of ds req ext] by blast
  show "ListRoutes ext ds req =
        (ds, \<lparr>StatusCode = 404, Body = ''Missing route config for port '' @ itoa port\<rparr>)"
    if "\<not> cached (rdsCache ds) (URL req) \<and>
        PathParameter req ServiceCluster = IstioServiceCluster (mesh ds) \<and>
        Atoi (PathParameter req RouteConfigName) = Some port \<and>
        outbound_routes ext ds req port = None"
    using that ListRoutes_errors(2) [of ds req port ext] by blast
  show "ListRoutes ext ds req = (ds, \<lparr>StatusCode = 500, Body = err\<rparr>)"
    if "\<not> cached (rdsCache ds) (URL req) \<and>
        PathParameter req ServiceCluster = IstioServiceCluster (mesh ds) \<and>
        Atoi (PathParameter req RouteConfigName) = Some port \<and>
        outbound_routes ext ds req port = Some rc \<and>
        MarshalIndent_HTTPRouteConfig ext rc = Inl err"
    using that ListRoutes_errors(3) [of ds req port ext rc err] by blast
qed

lemma NewDiscoveryService_out:
  assumes "NewDiscoveryService ext ctl opts = Inr (ds0, k)"
  shows "ds0 = \<lparr>services = Options_Services opts, config = Options_Config opts,
                mesh = Options_Mesh opts,
                sdsCache = newDiscoveryCache (EnableCaching opts),
                cdsCache = newDiscoveryCache (EnableCaching opts),
                rdsCache = newDiscoveryCache (EnableCaching opts)\<rparr>"
  using assms
  by (simp add: NewDiscoveryService_def Let_def split: prod.splits option.splits)

lemma off_and_empty_new: "\<not> enabled \<Longrightarrow> off_and_empty (newDiscoveryCache enabled)"
  by (simp add: off_and_empty_def newDiscoveryCache_def)

lemma off_and_empty_methods:
  assumes "off_and_empty c"
  shows "cachedDiscoveryResponse c key = ((None, False), c)"
    and "updateCachedDiscoveryResponse c key d = c"
    and "clear c = c"
    and "resetStats c = c"
    and "stats c = Map.empty"
    and "\<not> cached c key"
  using assms
  by (simp_all add: off_and_empty_def cachedDiscoveryResponse_def
      updateCachedDiscoveryResponse_def clear_def resetStats_def stats_def cached_def)

lemma perform_all_off:
  assumes "all_off ds"
  shows "perform ext ds op = ds"
proof -
  from assms have s: "off_and_empty (sdsCache ds)" and c: "off_and_empty (cdsCache ds)"
    and r: "off_and_empty (rdsCache ds)"
    by (simp_all add: all_off_def)
  show ?thesis
  proof (cases op)
    case (SDS req)
    obtain hostname ports tags
      where p: "ParseServiceKey ext (PathParameter req ServiceKey) = (hostname, ports, tags)"
      by (cases "ParseServiceKey ext (PathParameter req ServiceKey)") auto
    show ?thesis
      by (simp add: SDS ListEndpoints_def Let_def off_and_empty_methods [OF s] p
          MarshalIndent_hosts_def)
  next
    case (CDS req)
    show ?thesis
      by (simp add: CDS ListClusters_def Let_def off_and_empty_methods [OF c] split: sum.splits)
  next
    case (RDS req)
    show ?thesis
      by (simp add: RDS ListRoutes_def Let_def off_and_empty_methods [OF r]
          split: sum.splits option.splits)
  next
    case CacheStats
    then show ?thesis by simp
  next
    case CacheStatsDelete
    then show ?thesis
      by (simp add: ClearCacheStats_def off_and_empty_methods [OF s]
          off_and_empty_methods [OF c] off_and_empty_methods [OF r])
  next
    case Change
    then show ?thesis
      by (simp add: clearCache_def off_and_empty_methods [OF s]
          off_and_empty_methods [OF c] off_and_empty_methods [OF r])
  qed
qed

lemma run_all_off: "all_off ds \<Longrightarrow> run ext ds ops = ds"
  unfolding run_def
  by (induction ops) (simp_all add: perform_all_off)

text \<open>
  C10. For a service constructed with \<open>EnableCaching\<close> false, after any sequence of
  requests, statistics calls and change notifications the service is the one that was
  constructed: each cache is disabled and empty, every lookup reports a miss and leaves
  the cache as it is, every update returns the cache unchanged, and the cache-stats
  map is empty.
\<close>

theorem caching_disabled:
  assumes "\<not> EnableCaching opts" and "NewDiscoveryService ext ctl opts = Inr (ds0, k)"
  shows "run ext ds0 ops = ds0 \<and>
         off_and_empty (sdsCache (run ext ds0 ops)) \<and>
         off_and_empty (cdsCache (run ext ds0 ops)) \<and>
         off_and_empty (rdsCache (run ext ds0 ops)) \<and>
         cachedDiscoveryResponse (sdsCache (run ext ds0 ops)) key =
           ((None, False), sdsCache (run ext ds0 ops)) \<and>
         cachedDiscoveryResponse (cdsCache (run ext ds0 ops)) key =
           ((None, False), cdsCache (run ext ds0 ops)) \<and>
         cachedDiscoveryResponse (rdsCache (run ext ds0 ops)) key =
           ((None, False), rdsCache (run ext ds0 ops)) \<and>
         updateCachedDiscoveryResponse (sdsCache (run ext ds0 ops)) key d =
           sdsCache (run ext ds0 ops) \<and>
         updateCachedDiscoveryResponse (cdsCache (run ext ds0 ops)) key d =
           cdsCache (run ext ds0 ops) \<and>
         updateCachedDiscoveryResponse (rdsCache (run ext ds0 ops)) key d =
           rdsCache (run ext ds0 ops) \<and>
         GetCacheStats (run ext ds0 ops) = Map.empty"
proof -
  have off: "all_off ds0"
    using assms(1) NewDiscoveryService_out [OF assms(2)]
    by (simp add: all_off_def off_and_empty_new)
  then have same: "run ext ds0 ops = ds0"
    by (rule run_all_off)
  from off have s: "off_and_empty (sdsCache ds0)" and c: "off_and_empty (cdsCache ds0)"
    and r: "off_and_empty (rdsCache ds0)"
    by (simp_all add: all_off_def)
  show ?thesis
    by (simp add: same s c r GetCacheStats_def off_and_empty_methods [OF s]
        off_and_empty_methods [OF c] off_and_empty_methods [OF r])
qed

lemma hosts_array_body_marshal:
  "hosts_array_body q (indent_json q 0 (hosts_json \<lparr>Hosts = Some hs\<rparr>))"
  unfolding hosts_array_body_def
  by (rule exI [of _ "map host_json hs"]) (simp only: hosts_json_def hosts.simps option.case)

lemma sds_bodies_new: "sds_bodies q (newDiscoveryCache enabled)"
  by (simp add: sds_bodies_def newDiscoveryCache_def)

lemma sds_bodies_update:
  "sds_bodies q c \<Longrightarrow> hosts_array_body q b \<Longrightarrow>
   sds_bodies q (updateCachedDiscoveryResponse c key (Some b))"
  by (auto simp: sds_bodies_def updateCachedDiscoveryResponse_def Let_def split: if_splits)

lemma sds_bodies_hit:
  "sds_bodies q c \<Longrightarrow> cache c key = Some e \<Longrightarrow>
   sds_bodies q (c\<lparr>cache := (cache c)(key \<mapsto> e\<lparr>hit := hit e + 1\<rparr>)\<rparr>)"
  by (auto simp: sds_bodies_def split: if_splits)

lemma sds_bodies_clear: "sds_bodies q (clear c)"
  by (auto simp: sds_bodies_def clear_lookup)

lemma sds_bodies_resetStats: "sds_bodies q c \<Longrightarrow> sds_bodies q (resetStats c)"
  by (auto simp: sds_bodies_def resetStats_def)

lemma ListEndpoints_sds_bodies:
  assumes "sds_bodies (JSONString ext) (sdsCache ds)"
  shows "sds_bodies (JSONString ext) (sdsCache (fst (ListEndpoints ext ds req))) \<and>
         hosts_array_body (JSONString ext) (Body (snd (ListEndpoints ext ds req)))"
proof (cases "cached (sdsCache ds) (URL req)")
  case True
  then obtain e d where e: "cache (sdsCache ds) (URL req) = Some e" "data e = Some d"
    and l: "ListEndpoints ext ds req =
             (ds\<lparr>sdsCache := (sdsCache ds)\<lparr>cache := (cache (sdsCache ds))
                                   (URL req \<mapsto> e\<lparr>hit := hit e + 1\<rparr>)\<rparr>\<rparr>,
              writeResponse (Some d))"
    using ListEndpoints_hit [of ds req ext] by blast
  from assms e have "hosts_array_body (JSONString ext) d"
    by (auto simp: sds_bodies_def)
  with assms e show ?thesis
    by (simp add: l sds_bodies_hit)
next
  case False
  then obtain hs where l: "ListEndpoints ext ds req =
           (ds\<lparr>sdsCache := updateCachedDiscoveryResponse (sdsCache ds) (URL req)
                   (Some (indent_json (JSONString ext) 0 (hosts_json \<lparr>Hosts = Some hs\<rparr>)))\<rparr>,
            writeResponse (Some (indent_json (JSONString ext) 0 (hosts_json \<lparr>Hosts = Some hs\<rparr>))))"
    using ListEndpoints_miss [of ds req ext] by blast
  show ?thesis
    by (simp add: l sds_bodies_update [OF assms] hosts_array_body_marshal)
qed

lemma ListClusters_sdsCache: "sdsCache (fst (ListClusters ext ds req)) = sdsCache ds"
proof (cases "cached (cdsCache ds) (URL req)")
  case True
  with ListClusters_hit [OF True, of ext] show ?thesis by auto
next
  case False
  with lookup_miss [OF False] show ?thesis
    by (auto simp: ListClusters_def Let_def split: sum.splits if_splits)
qed

lemma ListRoutes_sdsCache: "sdsCache (fst (ListRoutes ext ds req)) = sdsCache ds"
proof (cases "cached (rdsCache ds) (URL req)")
  case True
  with ListRoutes_hit [OF True, of ext] show ?thesis by auto
next
  case False
  with lookup_miss [OF False] show ?thesis
    by (auto simp: ListRoutes_def Let_def split: sum.splits if_splits option.splits)
qed

lemma perform_sds_bodies:
  assumes "sds_bodies (JSONString ext) (sdsCache ds)"
  shows "sds_bodies (JSONString ext) (sdsCache (perform ext ds op))"
proof (cases op)
  case (SDS req)
  then show ?thesis using ListEndpoints_sds_bodies [OF assms] by simp
next
  case (CDS req)
  then show ?thesis using assms by (simp add: ListClusters_sdsCache)
next
  case (RDS req)
  then show ?thesis using assms by (simp add: ListRoutes_sdsCache)
next
  case CacheStats
  then show ?thesis using assms by simp
next
  case CacheStatsDelete
  then show ?thesis using assms by (simp add: ClearCacheStats_def sds_bodies_resetStats)
next
  case Change
  then show ?thesis by (simp add: sds_bodies_clear)
qed

lemma run_sds_bodies:
  "sds_bodies (JSONString ext) (sdsCache ds) \<Longrightarrow>
   sds_bodies (JSONString ext) (sdsCache (run ext ds ops))"
  unfolding run_def
  by (induction ops arbitrary: ds) (simp_all add: perform_sds_bodies)

lemma ListEndpoints_no_instances:
  assumes "\<not> cached (sdsCache ds) (URL req)"
    and "ParseServiceKey ext (PathParameter req ServiceKey) = (hostname, ports, tags)"
    and "Instances (services ds) hostname (GetNames ext ports) tags = []"
  shows "snd (ListEndpoints ext ds req) = \<lparr>StatusCode = 200, Body = empty_hosts_body\<rparr>"
  using lookup_miss [OF assms(1)] assms(2,3)
  by (simp add: ListEndpoints_def Let_def MarshalIndent_hosts_def hosts_json_def
      writeResponse_def StatusOK_def empty_hosts_body_def newline_def)

text \<open>
  C7. For a service made by \<open>NewDiscoveryService\<close>, after any sequence of requests,
  statistics calls and change notifications, every SDS request is answered with status
  200 and a body that is the JSON text of an object whose \<open>hosts\<close> field is an array,
  never \<open>null\<close>. A request that is not answered from the cache and whose service key
  matches no instance gets the text that \<open>MarshalIndent\<close> writes for the object
  \<open>{"hosts": []}\<close>.
\<close>

theorem sds_hosts_always_array:
  assumes "NewDiscoveryService ext ctl opts = Inr (ds0, k)"
  shows "StatusCode (snd (ListEndpoints ext (run ext ds0 ops) req)) = StatusOK \<and>
         hosts_array_body (JSONString ext) (Body (snd (ListEndpoints ext (run ext ds0 ops) req))) \<and>
         (\<not> cached (sdsCache (run ext ds0 ops)) (URL req) \<and>
          ParseServiceKey ext (PathParameter req ServiceKey) = (hostname, ports, tags) \<and>
          Instances (services (run ext ds0 ops)) hostname (GetNames ext ports) tags = [] \<longrightarrow>
            snd (ListEndpoints ext (run ext ds0 ops) req) =
              \<lparr>StatusCode = 200, Body = empty_hosts_body\<rparr>) \<and>
         empty_hosts_body = indent_json (JSONString ext) 0 (JObject [(''hosts'', JArray [])])"
proof -
  have "sds_bodies (JSONString ext) (sdsCache ds0)"
    using NewDiscoveryService_out [OF assms] by (simp add: sds_bodies_new)
  then have "sds_bodies (JSONString ext) (sdsCache (run ext ds0 ops))"
    by (rule run_sds_bodies)
  then have "hosts_array_body (JSONString ext)
      (Body (snd (ListEndpoints ext (run ext ds0 ops) req)))"
    using ListEndpoints_sds_bodies by blast
  then show ?thesis
    by (intro conjI impI ListEndpoints_ok)
      (simp_all add: ListEndpoints_no_instances empty_hosts_body_def newline_def)
qed

lemma new_example_service:
  "NewDiscoveryService example_ext registry (example_options caching) =
     Inr (new_service caching, example_registry)"
  by (simp add: NewDiscoveryService_def registry_def example_ext_def example_options_def
      example_registry_def new_service_def no_handlers_def)

lemma new_service_not_cached:
  "\<not> cached (sdsCache (new_service caching)) key"
  "\<not> cached (cdsCache (new_service caching)) key"
  "\<not> cached (rdsCache (new_service caching)) key"
  by (simp_all add: cached_iff new_service_def newDiscoveryCache_def)

lemma example_parameters:
  "PathParameter (rds_request name cluster node) RouteConfigName = name"
  "PathParameter (rds_request name cluster node) ServiceCluster = cluster"
  "PathParameter (cds_request cluster node) ServiceCluster = cluster"
  "PathParameter (sds_request k) ServiceKey = k"
  "IstioServiceCluster (mesh (new_service caching)) = ''istio-proxy''"
  by (simp_all add: PathParameter_def RouteConfigName_def ServiceCluster_def ServiceKey_def
      rds_request_def cds_request_def sds_request_def request_def new_service_def
      example_mesh_def)

lemma example_routes:
  "outbound_routes example_ext ds req 82 = None"
  "outbound_routes example_ext ds req 81 = Some ''cyclic''"
  "MarshalIndent_HTTPRouteConfig example_ext ''cyclic'' = Inl ''unsupported value''"
  "Quote example_ext = quoted"
  by (simp_all add: outbound_routes_def example_ext_def)

lemma example_numbers:
  "Atoi ''notanumber'' = None" "Atoi ''82'' = Some 82" "Atoi ''81'' = Some 81"
  "itoa 82 = ''82''"
  by code_simp+

theorem handlers_clear_all_caches_witness:
  "NewDiscoveryService example_ext registry (example_options True) =
     Inr (new_service True, example_registry) \<and>
   all_evicted (deliver example_registry
     (ConfigChange ''route-rule''
        \<lparr>Key_Kind = ''route-rule'', Key_Name = ''reviews'', Key_Namespace = ''default''\<rparr>
        OtherMessage EventUpdate) example_service) \<and>
   all_evicted (serviceHandler (service_with [http_port 80]) EventUpdate example_service) \<and>
   cache (sdsCache (serviceHandler (service_with [http_port 80]) EventUpdate example_service))
     ''/v1/x'' = Some \<lparr>data = None, hit = 2, miss = 1\<rparr>"
proof -
  note t = handlers_clear_all_caches [where ext = example_ext and opts = "example_options True"
      and out = "new_service True" and k = example_registry and ds = example_service
      and s = "service_with [http_port 80]" and e = EventUpdate and m = OtherMessage
      and key = "\<lparr>Key_Kind = ''route-rule'', Key_Name = ''reviews'', Key_Namespace = ''default''\<rparr>"]
  have new: "NewDiscoveryService example_ext registry (example_options True) =
      Inr (new_service True, example_registry)"
    by (rule new_example_service)
  have kind: "RouteRule_kind example_ext = ''route-rule''"
    by (simp add: example_ext_def)
  have a: "all_evicted (deliver example_registry
     (ConfigChange (RouteRule_kind example_ext)
        \<lparr>Key_Kind = ''route-rule'', Key_Name = ''reviews'', Key_Namespace = ''default''\<rparr>
        OtherMessage EventUpdate) example_service)"
    using t new by blast
  have b: "all_evicted (serviceHandler (service_with [http_port 80]) EventUpdate example_service)"
    using t by blast
  have c: "cache (sdsCache (serviceHandler (service_with [http_port 80]) EventUpdate example_service))
     ''/v1/x'' = Some \<lparr>data = None, hit = 2, miss = 1\<rparr>"
    by (simp add: serviceHandler_def clearCache_def clear_def example_service_def
        example_cache_def)
  from new a b c show ?thesis
    by (simp only: kind)
qed

theorem clear_keeps_keys_and_counters_witness:
  "cache (clear example_cache) ''/v1/x'' = Some \<lparr>data = None, hit = 2, miss = 1\<rparr> \<and>
   cachedDiscoveryResponse (clear example_cache) ''/v1/x'' = ((None, False), clear example_cache) \<and>
   cache (updateCachedDiscoveryResponse (clear example_cache) ''/v1/x'' (Some ''new'')) ''/v1/x'' =
     Some \<lparr>data = Some ''new'', hit = 2, miss = 2\<rparr> \<and>
   \<not> disabled (sdsCache example_service) \<and>
   stored (sdsCache (fst (ListEndpoints example_ext (clearCache example_service)
                            (sds_request ''hello''))))
     (URL (sds_request ''hello''))
     (Body (snd (ListEndpoints example_ext (clearCache example_service) (sds_request ''hello''))))"
  using clear_keeps_keys_and_counters [where c = example_cache and ds = example_service
      and ext = example_ext and req = "sds_request ''hello''"]
  by (simp add: example_cache_def example_service_def clear_def
      updateCachedDiscoveryResponse_def Let_def)

theorem wrong_service_cluster_witness:
  "PathParameter (cds_request ''other'' ''10.0.0.1'') ServiceCluster = ''other'' \<and>
   IstioServiceCluster (mesh (new_service True)) = ''istio-proxy'' \<and>
   \<not> cached (cdsCache (new_service True)) (URL (cds_request ''other'' ''10.0.0.1'')) \<and>
   ListClusters example_ext (new_service True) (cds_request ''other'' ''10.0.0.1'') =
     (new_service True,
      \<lparr>StatusCode = 404, Body = ''Unexpected service-cluster '' @ quoted ''other''\<rparr>)"
proof -
  have h: "PathParameter (cds_request ''other'' ''10.0.0.1'') ServiceCluster \<noteq>
      IstioServiceCluster (mesh (new_service True))"
    by (simp add: example_parameters)
  show ?thesis
    using wrong_service_cluster [OF h, of example_ext]
    by (simp add: example_parameters new_service_not_cached example_routes)
qed

theorem error_response_keeps_caches_witness:
  "ListRoutes example_ext (new_service True) (rds_request ''notanumber'' ''istio-proxy'' ''10.0.0.1'') =
     (new_service True,
      \<lparr>StatusCode = 404, Body = ''Unexpected route-config-name '' @ quoted ''notanumber''\<rparr>) \<and>
   ListRoutes example_ext (new_service True) (rds_request ''82'' ''istio-proxy'' ''10.0.0.1'') =
     (new_service True, \<lparr>StatusCode = 404, Body = ''Missing route config for port 82''\<rparr>) \<and>
   ListRoutes example_ext (new_service True) (rds_request ''81'' ''istio-proxy'' ''10.0.0.1'') =
     (new_service True, \<lparr>StatusCode = 500, Body = ''unsupported value''\<rparr>) \<and>
   fst (ListClusters example_ext (new_service True) (cds_request ''other'' ''10.0.0.1'')) =
     new_service True"
proof -
  have a: "ListRoutes example_ext (new_service True)
             (rds_request ''notanumber'' ''istio-proxy'' ''10.0.0.1'') =
     (new_service True,
      \<lparr>StatusCode = 404, Body = ''Unexpected route-config-name '' @ quoted ''notanumber''\<rparr>)"
    using error_response_keeps_caches [where ext = example_ext and ds = "new_service True"
      and req = "rds_request ''notanumber'' ''istio-proxy'' ''10.0.0.1''"]
    by (simp add: new_service_not_cached example_parameters example_routes example_numbers)
  have b: "ListRoutes example_ext (new_service True)
             (rds_request ''82'' ''istio-proxy'' ''10.0.0.1'') =
     (new_service True, \<lparr>StatusCode = 404, Body = ''Missing route config for port 82''\<rparr>)"
    using error_response_keeps_caches [where ext = example_ext and ds = "new_service True"
      and req = "rds_request ''82'' ''istio-proxy'' ''10.0.0.1''" and port = 82]
    by (simp add: new_service_not_cached example_parameters example_routes example_numbers)
  have c: "ListRoutes example_ext (new_service True)
             (rds_request ''81'' ''istio-proxy'' ''10.0.0.1'') =
     (new_service True, \<lparr>StatusCode = 500, Body = ''unsupported value''\<rparr>)"
    using error_response_keeps_caches [where ext = example_ext and ds = "new_service True"
      and req = "rds_request ''81'' ''istio-proxy'' ''10.0.0.1''" and port = 81
      and rc = "''cyclic''" and err = "''unsupported value''"]
    by (simp add: new_service_not_cached example_parameters example_routes example_numbers)
  have d: "fst (ListClusters example_ext (new_service True) (cds_request ''other'' ''10.0.0.1'')) =
     new_service True"
    using error_response_keeps_caches [where ext = example_ext and ds = "new_service True"
      and req = "cds_request ''other'' ''10.0.0.1''"]
    by (simp add: new_service_not_cached example_parameters)
  from a b c d show ?thesis by blast
qed

theorem caching_disabled_witness:
  "\<not> EnableCaching (example_options False) \<and>
   NewDiscoveryService example_ext registry (example_options False) =
     Inr (new_service False, example_registry) \<and>
   run example_ext (new_service False)
     [SDS (sds_request ''hello''), CDS (cds_request ''istio-proxy'' ''10.0.0.1''), Change,
      SDS (sds_request ''hello''), CacheStats] = new_service False \<and>
   GetCacheStats (run example_ext (new_service False)
     [SDS (sds_request ''hello''), CDS (cds_request ''istio-proxy'' ''10.0.0.1''), Change,
      SDS (sds_request ''hello''), CacheStats]) = Map.empty"
proof -
  have h: "\<not> EnableCaching (example_options False)"
    by (simp add: example_options_def)
  show ?thesis
    using h new_example_service [of False]
      caching_disabled [OF h new_example_service [of False],
        where ops = "[SDS (sds_request ''hello''), CDS (cds_request ''istio-proxy'' ''10.0.0.1''),
                      Change, SDS (sds_request ''hello''), CacheStats]"
          and key = "''/v1/x''" and d = None]
    by blast
qed

theorem sds_hosts_always_array_witness:
  "NewDiscoveryService example_ext registry (example_options True) =
     Inr (new_service True, example_registry) \<and>
   snd (ListEndpoints example_ext (run example_ext (new_service True) [])
          (sds_request ''nonexistent'')) =
     \<lparr>StatusCode = 200, Body = empty_hosts_body\<rparr> \<and>
   hosts_array_body quoted
     (Body (snd (ListEndpoints example_ext
                   (run example_ext (new_service True) [SDS (sds_request ''hello'')])
                   (sds_request ''hello''))))"
proof -
  note new = new_example_service [of True]
  have p: "ParseServiceKey example_ext (PathParameter (sds_request ''nonexistent'') ServiceKey) =
      (''nonexistent'', [], [])"
    by (simp add: example_parameters example_ext_def)
  have i: "Instances (services (run example_ext (new_service True) [])) ''nonexistent''
      (GetNames example_ext []) [] = []"
    by (simp add: run_def new_service_def example_services_def)
  have n: "\<not> cached (sdsCache (run example_ext (new_service True) []))
      (URL (sds_request ''nonexistent''))"
    by (simp add: run_def new_service_not_cached)
  have a: "snd (ListEndpoints example_ext (run example_ext (new_service True) [])
          (sds_request ''nonexistent'')) =
     \<lparr>StatusCode = 200, Body = empty_hosts_body\<rparr>"
    using sds_hosts_always_array [OF new, where ops = "[]" and req = "sds_request ''nonexistent''"
        and hostname = "''nonexistent''" and ports = "[]" and tags = "[]"] p i n
    by blast
  have q: "JSONString example_ext = quoted"
    by (simp add: example_ext_def)
  have b: "hosts_array_body quoted
     (Body (snd (ListEndpoints example_ext
                   (run example_ext (new_service True) [SDS (sds_request ''hello'')])
                   (sds_request ''hello''))))"
    using sds_hosts_always_array [OF new, where ops = "[SDS (sds_request ''hello'')]"
        and req = "sds_request ''hello''"]
    by (simp add: q)
  from new a b show ?thesis by blast
qed

section \<open>Properties: launching the proxy\<close>






end
